theory Spec2Isabelle
  imports Main "HOL-Library.Sublist"
begin

section \<open>Strings: the pieces of Go's \<^verbatim>\<open>strings\<close> and \<^verbatim>\<open>path/filepath\<close> the program calls\<close>

text \<open>
  A Go \<^verbatim>\<open>string\<close> is a byte sequence, here a \<^typ>\<open>string\<close> (a list of 8-bit characters).
  Paths follow the POSIX build of the program: the only separator is the slash.
\<close>

definition IsPathSeparator :: "char \<Rightarrow> bool" where
  "IsPathSeparator c = (c = CHR ''/'')"

text \<open>
  \<^verbatim>\<open>strings.Join(elems, sep)\<close>: nothing for no element, the element itself for one, and
  otherwise the first element followed, for each later element, by the separator and
  the element (the builder loop of the library).
\<close>

definition strings_Join :: "string list \<Rightarrow> string \<Rightarrow> string" where
  "strings_Join elems sep =
     (case elems of
        [] \<Rightarrow> []
      | e # es \<Rightarrow> foldl (\<lambda>b s. b @ sep @ s) e es)"

text \<open>
  \<^verbatim>\<open>strings.ToLower\<close> on the ASCII letters. On other bytes the library works rune by rune;
  no rune outside ASCII has a lower-case form among the characters of \<^verbatim>\<open>.pdf\<close>, so the
  comparison in \<^verbatim>\<open>getFileType\<close> is decided by the ASCII letters alone.
\<close>

definition lower_byte :: "char \<Rightarrow> char" where
  "lower_byte c =
     (if 65 \<le> (of_char c :: nat) \<and> (of_char c :: nat) \<le> 90
      then char_of ((of_char c :: nat) + 32) else c)"

definition strings_ToLower :: "string \<Rightarrow> string" where
  "strings_ToLower s = map lower_byte s"

text \<open>\<^verbatim>\<open>strings.TrimRight(s, "/")\<close>: every trailing slash is removed.\<close>

definition trim_right_slash :: "string \<Rightarrow> string" where
  "trim_right_slash s = rev (dropWhile (\<lambda>c. c = CHR ''/'') (rev s))"

text \<open>
  \<^verbatim>\<open>filepath.Ext\<close>: scan from the last byte towards the first, stop with no extension at
  a separator, and return the rest of the path from the first dot met.
  \<open>ext_scan\<close> takes the bytes still to visit (last one first) and the bytes already
  passed.
\<close>

fun ext_scan :: "string \<Rightarrow> string \<Rightarrow> string" where
  "ext_scan [] seen = []"
| "ext_scan (c # earlier) seen =
     (if IsPathSeparator c then []
      else if c = CHR ''.'' then c # seen
      else ext_scan earlier (c # seen))"

definition filepath_Ext :: "string \<Rightarrow> string" where
  "filepath_Ext path = ext_scan (rev path) []"


subsection \<open>Cleaning, joining and splitting paths\<close>

text \<open>
  \<^verbatim>\<open>filepath.Clean\<close>, element by element. \<open>path_elements\<close> cuts a path at its separators
  (an empty element stands between two neighbouring separators and at a leading or
  trailing one). \<open>clean_step\<close> is the body of the library's loop on the elements kept so
  far: an empty element and \<^verbatim>\<open>.\<close> are dropped; \<^verbatim>\<open>..\<close> removes the last kept element when
  there is one that is not itself \<^verbatim>\<open>..\<close>, is kept on a relative path, and is dropped at
  the root; every other element is kept. The result is the kept elements joined by
  slashes, after a slash on a rooted path, and \<^verbatim>\<open>.\<close> when that is empty.
\<close>

fun path_elements :: "string \<Rightarrow> string list" where
  "path_elements [] = [[]]"
| "path_elements (c # cs) =
     (if IsPathSeparator c then [] # path_elements cs
      else (case path_elements cs of
              [] \<Rightarrow> [[c]]
            | el # els \<Rightarrow> (c # el) # els))"

definition clean_step :: "bool \<Rightarrow> string list \<Rightarrow> string \<Rightarrow> string list" where
  "clean_step rooted out el =
     (if el = [] \<or> el = ''.'' then out
      else if el = ''..'' then
        (if out \<noteq> [] \<and> last out \<noteq> ''..'' then butlast out
         else if \<not> rooted then out @ [''..'']
         else out)
      else out @ [el])"

definition filepath_Clean :: "string \<Rightarrow> string" where
  "filepath_Clean path =
     (if path = [] then ''.''
      else
        let rooted = IsPathSeparator (hd path);
            out = foldl (clean_step rooted) [] (path_elements path);
            cleaned = (if rooted then ''/'' else []) @ strings_Join out ''/''
        in if cleaned = [] then ''.'' else cleaned)"

text \<open>
  \<^verbatim>\<open>filepath.Join\<close>: the elements from the first non-empty one on, joined by slashes and
  cleaned; the empty string when every element is empty.
\<close>

definition filepath_Join :: "string list \<Rightarrow> string" where
  "filepath_Join elem =
     (case dropWhile (\<lambda>e. e = []) elem of
        [] \<Rightarrow> []
      | e # es \<Rightarrow> filepath_Clean (strings_Join (e # es) ''/''))"

text \<open>\<^verbatim>\<open>filepath.Dir\<close>: the path up to and including its last separator, cleaned.\<close>

definition dir_prefix :: "string \<Rightarrow> string" where
  "dir_prefix path = rev (dropWhile (\<lambda>c. \<not> IsPathSeparator c) (rev path))"

definition filepath_Dir :: "string \<Rightarrow> string" where
  "filepath_Dir path = filepath_Clean (dir_prefix path)"


section \<open>Errors\<close>

text \<open>
  Go's \<^verbatim>\<open>error\<close> values that the program meets: the sentinel \<^verbatim>\<open>os.ErrNotExist\<close>, a
  \<^verbatim>\<open>*fs.PathError\<close> (operation, path, cause), an \<^verbatim>\<open>*os.SyscallError\<close> (call, cause), and
  an error that is only a text (\<^verbatim>\<open>errors.New\<close>, and the errors of the YAML, JSON and HTTP
  libraries). \<open>Error_text\<close> is the \<^verbatim>\<open>Error()\<close> method, which \<^verbatim>\<open>%v\<close> prints.
\<close>

datatype errno = ENOENT | EEXIST | ENOTDIR | EISDIR

datatype error =
    ErrNotExist
  | PathError string string errno
  | SyscallError string errno
  | ErrorString string

fun errno_text :: "errno \<Rightarrow> string" where
  "errno_text ENOENT = ''no such file or directory''"
| "errno_text EEXIST = ''file exists''"
| "errno_text ENOTDIR = ''not a directory''"
| "errno_text EISDIR = ''is a directory''"

fun Error_text :: "error \<Rightarrow> string" where
  "Error_text ErrNotExist = ''file does not exist''"
| "Error_text (PathError op path e) = op @ '' '' @ path @ '': '' @ errno_text e"
| "Error_text (SyscallError call e) = call @ '': '' @ errno_text e"
| "Error_text (ErrorString s) = s"

text \<open>\<^verbatim>\<open>os.IsNotExist\<close>: the sentinel, or an error whose cause is \<^verbatim>\<open>ENOENT\<close>.\<close>

fun IsNotExist :: "error \<Rightarrow> bool" where
  "IsNotExist ErrNotExist = True"
| "IsNotExist (PathError op path e) = (e = ENOENT)"
| "IsNotExist (SyscallError call e) = (e = ENOENT)"
| "IsNotExist (ErrorString s) = False"

text \<open>\<^verbatim>\<open>fmt.Sprintf("%d", n)\<close>: the decimal digits of an integer, with a sign when negative.\<close>

definition digit_char :: "nat \<Rightarrow> char" where
  "digit_char d = char_of (48 + d)"

fun digits :: "nat \<Rightarrow> string" where
  "digits n = (if n < 10 then [digit_char n] else digits (n div 10) @ [digit_char (n mod 10)])"

definition itoa :: "int \<Rightarrow> string" where
  "itoa i = (if i < 0 then CHR ''-'' # digits (nat (- i)) else digits (nat i))"


section \<open>The operating system\<close>

text \<open>
  What the program sees of its environment: the outcome of \<^verbatim>\<open>os.Getwd\<close> and of
  \<^verbatim>\<open>os.UserHomeDir\<close>, and a file system, a map from the absolute names of its entries to
  regular files (with their contents) and directories, with the name of the process's
  working directory. Links and permissions are outside the model.

  A path is resolved as the kernel does it, element by element, from the entry \<^verbatim>\<open>/\<close> for a
  rooted path and from the working directory otherwise. Every element, also an empty
  one and a dot, needs the entry reached so far to be a directory: the walk fails with
  \<^verbatim>\<open>ENOENT\<close> when that entry is missing and with \<^verbatim>\<open>ENOTDIR\<close> when it is a regular file. A
  dot-dot leads to the parent, any other name to the entry of that name in the
  directory. The empty path names nothing.
\<close>

datatype node = RegularFile string | Directory

record os_state =
  Getwd_result :: "error + string"
  UserHomeDir_result :: "error + string"
  nodes :: "string \<rightharpoonup> node"
  working_directory :: string

definition entry_name :: "string \<Rightarrow> string \<Rightarrow> string" where
  "entry_name dir el = filepath_Join [dir, el]"

fun walk :: "os_state \<Rightarrow> string \<Rightarrow> string list \<Rightarrow> errno + string" where
  "walk os cur [] = Inr cur"
| "walk os cur (el # els) =
     (case nodes os cur of
        None \<Rightarrow> Inl ENOENT
      | Some (RegularFile contents) \<Rightarrow> Inl ENOTDIR
      | Some Directory \<Rightarrow>
          (if el = [] \<or> el = ''.'' then walk os cur els
           else walk os (entry_name cur el) els))"

definition walk_start :: "os_state \<Rightarrow> string \<Rightarrow> string" where
  "walk_start os name = (if IsPathSeparator (hd name) then ''/'' else working_directory os)"

text \<open>The entry a path leads to, which need not exist, and the node found there.\<close>

definition namei :: "os_state \<Rightarrow> string \<Rightarrow> errno + string" where
  "namei os name =
     (if name = [] then Inl ENOENT
      else walk os (walk_start os name) (path_elements name))"

definition resolve :: "os_state \<Rightarrow> string \<Rightarrow> errno + node" where
  "resolve os name =
     (case namei os name of
        Inl e \<Rightarrow> Inl e
      | Inr entry \<Rightarrow>
          (case nodes os entry of
             None \<Rightarrow> Inl ENOENT
           | Some n \<Rightarrow> Inr n))"

definition lookup :: "os_state \<Rightarrow> string \<Rightarrow> node option" where
  "lookup os name = (case resolve os name of Inl e \<Rightarrow> None | Inr n \<Rightarrow> Some n)"

fun IsDir :: "node \<Rightarrow> bool" where
  "IsDir Directory = True"
| "IsDir (RegularFile contents) = False"

definition os_Stat :: "os_state \<Rightarrow> string \<Rightarrow> error + node" where
  "os_Stat os name =
     (case resolve os name of
        Inl e \<Rightarrow> Inl (PathError ''stat'' name e)
      | Inr info \<Rightarrow> Inr info)"

text \<open>\<^verbatim>\<open>os.ReadFile\<close>: opening fails as the walk does; a directory opens and cannot be read.\<close>

definition os_ReadFile :: "os_state \<Rightarrow> string \<Rightarrow> error + string" where
  "os_ReadFile os name =
     (case resolve os name of
        Inl e \<Rightarrow> Inl (PathError ''open'' name e)
      | Inr Directory \<Rightarrow> Inl (PathError ''read'' name EISDIR)
      | Inr (RegularFile contents) \<Rightarrow> Inr contents)"

text \<open>
  Writing operations return the new state and Go's \<^verbatim>\<open>error\<close> result, \<open>None\<close> for
  \<^verbatim>\<open>nil\<close>. \<^verbatim>\<open>os.WriteFile\<close> creates the file or replaces its contents; \<^verbatim>\<open>os.Mkdir\<close>
  accepts trailing separators and refuses an entry that exists.
\<close>

definition os_WriteFile :: "os_state \<Rightarrow> string \<Rightarrow> string \<Rightarrow> os_state \<times> error option" where
  "os_WriteFile os name data =
     (case namei os name of
        Inl e \<Rightarrow> (os, Some (PathError ''open'' name e))
      | Inr entry \<Rightarrow>
          (case nodes os entry of
             Some Directory \<Rightarrow> (os, Some (PathError ''open'' name EISDIR))
           | _ \<Rightarrow> (os\<lparr>nodes := (nodes os)(entry \<mapsto> RegularFile data)\<rparr>, None)))"

definition os_Mkdir :: "os_state \<Rightarrow> string \<Rightarrow> os_state \<times> error option" where
  "os_Mkdir os name =
     (if name = [] then (os, Some (PathError ''mkdir'' name ENOENT))
      else case walk os (walk_start os name)
                  (rev (dropWhile (\<lambda>el. el = []) (rev (path_elements name)))) of
        Inl e \<Rightarrow> (os, Some (PathError ''mkdir'' name e))
      | Inr entry \<Rightarrow>
          (case nodes os entry of
             Some info \<Rightarrow> (os, Some (PathError ''mkdir'' name EEXIST))
           | None \<Rightarrow> (os\<lparr>nodes := (nodes os)(entry \<mapsto> Directory)\<rparr>, None)))"

text \<open>
  \<^verbatim>\<open>os.MkdirAll\<close>: done when the path is a directory, an error when it is a file;
  otherwise the parent (the path without its trailing separators and its last element)
  is made first, when there is one, and then the directory itself. A directory that
  turns out to exist after a failed \<^verbatim>\<open>Mkdir\<close> is a success.
\<close>

definition mkdir_parent :: "string \<Rightarrow> string" where
  "mkdir_parent path =
     rev (dropWhile (\<lambda>c. \<not> IsPathSeparator c) (dropWhile IsPathSeparator (rev path)))"

function os_MkdirAll :: "os_state \<Rightarrow> string \<Rightarrow> os_state \<times> error option" where
  "os_MkdirAll os path =
     (case os_Stat os path of
        Inr dir \<Rightarrow>
          (if IsDir dir then (os, None) else (os, Some (PathError ''mkdir'' path ENOTDIR)))
      | Inl err0 \<Rightarrow>
          (case (if mkdir_parent path \<noteq> [] then os_MkdirAll os (mkdir_parent path)
                 else (os, None)) of
             (os1, Some err) \<Rightarrow> (os1, Some err)
           | (os1, None) \<Rightarrow>
               (case os_Mkdir os1 path of
                  (os2, None) \<Rightarrow> (os2, None)
                | (os2, Some err) \<Rightarrow>
                    (case os_Stat os2 path of
                       Inr dir \<Rightarrow> (if IsDir dir then (os2, None) else (os2, Some err))
                     | Inl err1 \<Rightarrow> (os2, Some err)))))"
  by pat_completeness auto


section \<open>Configuration (package config)\<close>

definition ConfigFilename :: string where
  "ConfigFilename = ''.paddleocr_cli.yaml''"

definition UserConfigDir :: string where
  "UserConfigDir = ''.config/paddleocr_cli''"

definition UserConfigFile :: string where
  "UserConfigFile = ''config.yaml''"

record PaddleOCRConfig =
  ServerURL :: string
  AccessToken :: string

record Config =
  PaddleOCR :: PaddleOCRConfig

definition New :: Config where
  "New = \<lparr>PaddleOCR = \<lparr>ServerURL = [], AccessToken = []\<rparr>\<rparr>"

definition IsConfigured :: "Config \<Rightarrow> bool" where
  "IsConfigured c = (ServerURL (PaddleOCR c) \<noteq> [] \<and> AccessToken (PaddleOCR c) \<noteq> [])"

text \<open>
  \<^verbatim>\<open>Load\<close> and \<^verbatim>\<open>Save\<close> take the two entry points of the YAML library as a parameter.
  \<^verbatim>\<open>Unmarshal\<close> fills the configuration it is given.
\<close>

record yaml =
  yaml_Marshal :: "Config \<Rightarrow> error + string"
  yaml_Unmarshal :: "string \<Rightarrow> Config \<Rightarrow> error + Config"

text \<open>
  A pair of server URL and access token is valid when each is a single line: it holds
  no line feed and no carriage return.
\<close>

definition single_line :: "string \<Rightarrow> bool" where
  "single_line s = (CHR 0x0A \<notin> set s \<and> CHR 0x0D \<notin> set s)"

definition valid_pair :: "Config \<Rightarrow> bool" where
  "valid_pair c =
     (single_line (ServerURL (PaddleOCR c)) \<and> single_line (AccessToken (PaddleOCR c)))"

text \<open>\<open>strip_prefix p s\<close> is the rest of \<open>s\<close> after its prefix \<open>p\<close>, when it starts with it.\<close>

fun strip_prefix :: "string \<Rightarrow> string \<Rightarrow> string option" where
  "strip_prefix [] s = Some s"
| "strip_prefix (p # ps) [] = None"
| "strip_prefix (p # ps) (c # cs) = (if p = c then strip_prefix ps cs else None)"

text \<open>
  Modelled from the spec: \<^verbatim>\<open>yaml.Marshal\<close> of the library \<^verbatim>\<open>gopkg.in/yaml.v3\<close>, which is not
  part of the repository's sources. The specification gives the persisted file as
  structured text with the single top-level key \<^verbatim>\<open>paddleocr\<close> and under it the string
  fields \<^verbatim>\<open>server_url\<close> and \<^verbatim>\<open>access_token\<close>: the document has one line for the key and one
  line for each field, with its value.
\<close>

definition plain_Marshal :: "Config \<Rightarrow> error + string" where
  "plain_Marshal c =
     Inr (''paddleocr:'' @ [CHR 0x0A] @ ''    server_url: '' @ ServerURL (PaddleOCR c)
          @ [CHR 0x0A] @ ''    access_token: '' @ AccessToken (PaddleOCR c) @ [CHR 0x0A])"

text \<open>
  Modelled from the spec: \<^verbatim>\<open>yaml.Unmarshal\<close> of the same library, on documents of that
  shape: the value of a field is its line after the field's name. Any other content is
  malformed and fails with a parse error.
\<close>

definition plain_Unmarshal :: "string \<Rightarrow> Config \<Rightarrow> error + Config" where
  "plain_Unmarshal data c =
     (case strip_prefix (''paddleocr:'' @ [CHR 0x0A] @ ''    server_url: '') data of
        None \<Rightarrow> Inl (ErrorString ''yaml: unmarshal errors'')
      | Some rest \<Rightarrow>
          (case strip_prefix ([CHR 0x0A] @ ''    access_token: '')
                  (dropWhile (\<lambda>ch. ch \<noteq> CHR 0x0A) rest) of
             None \<Rightarrow> Inl (ErrorString ''yaml: unmarshal errors'')
           | Some rest2 \<Rightarrow>
               if dropWhile (\<lambda>ch. ch \<noteq> CHR 0x0A) rest2 = [CHR 0x0A]
               then Inr \<lparr>PaddleOCR =
                          \<lparr>ServerURL = takeWhile (\<lambda>ch. ch \<noteq> CHR 0x0A) rest,
                           AccessToken = takeWhile (\<lambda>ch. ch \<noteq> CHR 0x0A) rest2\<rparr>\<rparr>
               else Inl (ErrorString ''yaml: unmarshal errors'')))"

definition plain_yaml :: yaml where
  "plain_yaml = \<lparr>yaml_Marshal = plain_Marshal, yaml_Unmarshal = plain_Unmarshal\<rparr>"


text \<open>
  \<^verbatim>\<open>GetProjectRoot\<close>: from the working directory upwards, the first directory that holds
  a directory \<^verbatim>\<open>.claude\<close>; the walk gives up, with the empty string, after the home
  directory or a directory that is its own parent. A failed \<^verbatim>\<open>os.UserHomeDir\<close> leaves
  \<^verbatim>\<open>home\<close> empty.
\<close>

function project_root_loop :: "os_state \<Rightarrow> string \<Rightarrow> string \<Rightarrow> string" where
  "project_root_loop os home current =
     (if (case os_Stat os (filepath_Join [current, ''.claude'']) of
            Inr info \<Rightarrow> IsDir info
          | Inl err \<Rightarrow> False)
      then current
      else if filepath_Dir current = current \<or> current = home then []
      else project_root_loop os home (filepath_Dir current))"
  by pat_completeness auto

definition GetProjectRoot :: "os_state \<Rightarrow> string" where
  "GetProjectRoot os =
     (case Getwd_result os of
        Inl err \<Rightarrow> []
      | Inr cwd \<Rightarrow>
          project_root_loop os
            (case UserHomeDir_result os of Inl err \<Rightarrow> [] | Inr home \<Rightarrow> home) cwd)"

text \<open>
  \<^verbatim>\<open>FindConfig\<close>: the search paths are collected in the order current directory, project
  root, user configuration directory, each only when it can be determined; the first
  one that \<^verbatim>\<open>os.Stat\<close> finds is returned, and the empty string when there is none.
\<close>

definition searchPaths :: "os_state \<Rightarrow> string list" where
  "searchPaths os =
     (case Getwd_result os of
        Inr cwd \<Rightarrow> [filepath_Join [cwd, ConfigFilename]]
      | Inl err \<Rightarrow> [])
     @ (if GetProjectRoot os \<noteq> [] then [filepath_Join [GetProjectRoot os, ConfigFilename]]
        else [])
     @ (case UserHomeDir_result os of
          Inr home \<Rightarrow> [filepath_Join [home, UserConfigDir, UserConfigFile]]
        | Inl err \<Rightarrow> [])"

fun first_found :: "os_state \<Rightarrow> string list \<Rightarrow> string" where
  "first_found os [] = []"
| "first_found os (path # paths) =
     (case os_Stat os path of
        Inr info \<Rightarrow> path
      | Inl err \<Rightarrow> first_found os paths)"

definition FindConfig :: "os_state \<Rightarrow> string" where
  "FindConfig os = first_found os (searchPaths os)"

text \<open>
  \<^verbatim>\<open>Load\<close>: an empty path stands for a search. With no path at all, or with a file that
  does not exist, the result is a new empty configuration and no error; any other
  failure to read, and a failure to parse, is returned.
\<close>

definition Load :: "yaml \<Rightarrow> os_state \<Rightarrow> string \<Rightarrow> error + Config" where
  "Load y os configPath0 =
     (let configPath = (if configPath0 = [] then FindConfig os else configPath0) in
      if configPath = [] then Inr New
      else case os_ReadFile os configPath of
        Inl err \<Rightarrow> (if IsNotExist err then Inr New else Inl err)
      | Inr data \<Rightarrow>
          (case yaml_Unmarshal y data New of
             Inl err \<Rightarrow> Inl err
           | Inr config \<Rightarrow> Inr config))"

text \<open>
  \<^verbatim>\<open>Save\<close>: with no path, the user configuration file, whose directory is made first; in
  both cases the parent directory of the target is made, the configuration is
  marshalled and the file written. \<open>save_target\<close> is the first \<^verbatim>\<open>if\<close> of the function:
  it returns the state and either the error that ends \<^verbatim>\<open>Save\<close> or the path to write.
\<close>

definition save_target :: "os_state \<Rightarrow> string \<Rightarrow> os_state \<times> (error + string)" where
  "save_target os configPath =
     (if configPath = [] then
        (case UserHomeDir_result os of
           Inl err \<Rightarrow> (os, Inl err)
         | Inr home \<Rightarrow>
             (case os_MkdirAll os (filepath_Join [home, UserConfigDir]) of
                (os1, Some err) \<Rightarrow> (os1, Inl err)
              | (os1, None) \<Rightarrow>
                  (os1, Inr (filepath_Join [filepath_Join [home, UserConfigDir], UserConfigFile]))))
      else (os, Inr configPath))"

definition Save :: "yaml \<Rightarrow> os_state \<Rightarrow> Config \<Rightarrow> string \<Rightarrow> os_state \<times> error option" where
  "Save y os config configPath0 =
     (case save_target os configPath0 of
        (os1, Inl err) \<Rightarrow> (os1, Some err)
      | (os1, Inr configPath) \<Rightarrow>
          (case os_MkdirAll os1 (filepath_Dir configPath) of
             (os2, Some err) \<Rightarrow> (os2, Some err)
           | (os2, None) \<Rightarrow>
               (case yaml_Marshal y config of
                  Inl err \<Rightarrow> (os2, Some err)
                | Inr data \<Rightarrow> os_WriteFile os2 configPath data)))"

text \<open>\<^verbatim>\<open>GetSavePath\<close>: the switch on the scope, with the user path as the default case.\<close>

definition GetSavePath :: "os_state \<Rightarrow> string \<Rightarrow> error + string" where
  "GetSavePath os scope =
     (if scope = ''local'' then
        (case Getwd_result os of
           Inl err \<Rightarrow> Inl err
         | Inr cwd \<Rightarrow> Inr (filepath_Join [cwd, ConfigFilename]))
      else if scope = ''project'' then
        (if GetProjectRoot os = [] then Inl ErrNotExist
         else Inr (filepath_Join [GetProjectRoot os, ConfigFilename]))
      else
        (case UserHomeDir_result os of
           Inl err \<Rightarrow> Inl err
         | Inr home \<Rightarrow> Inr (filepath_Join [home, UserConfigDir, UserConfigFile])))"


text \<open>
  The three search tiers as the specification names them, for stating the order of
  preference: each is a path when it can be determined, and it is present when
  something exists at that path.
\<close>

definition tier_cwd :: "os_state \<Rightarrow> string option" where
  "tier_cwd os =
     (case Getwd_result os of
        Inr cwd \<Rightarrow> Some (filepath_Join [cwd, ConfigFilename])
      | Inl err \<Rightarrow> None)"

definition tier_project :: "os_state \<Rightarrow> string option" where
  "tier_project os =
     (if GetProjectRoot os \<noteq> [] then Some (filepath_Join [GetProjectRoot os, ConfigFilename])
      else None)"

definition tier_user :: "os_state \<Rightarrow> string option" where
  "tier_user os =
     (case UserHomeDir_result os of
        Inr home \<Rightarrow> Some (filepath_Join [home, UserConfigDir, UserConfigFile])
      | Inl err \<Rightarrow> None)"

definition present :: "os_state \<Rightarrow> string option \<Rightarrow> bool" where
  "present os tier = (case tier of None \<Rightarrow> False | Some path \<Rightarrow> lookup os path \<noteq> None)"


section \<open>The result model (package ocr)\<close>

datatype FileType = FileTypePDF | FileTypeImage

text \<open>The numeric value sent as \<^verbatim>\<open>fileType\<close>.\<close>

fun FileType_int :: "FileType \<Rightarrow> int" where
  "FileType_int FileTypePDF = 0"
| "FileType_int FileTypeImage = 1"

record OCRResult =
  PageIndex :: nat
  Markdown :: string
  Images :: "string \<rightharpoonup> string"

record DocumentOCRResult =
  Success :: bool
  Pages :: "OCRResult list"
  ErrorMessage :: string
  LogID :: string

text \<open>
  \<^verbatim>\<open>FullMarkdown\<close>: the loop appends each page's markdown to \<^verbatim>\<open>parts\<close>, which starts
  empty, and the parts are joined by the page separator.
\<close>

definition page_separator :: string where
  "page_separator = [CHR 0x0A, CHR 0x0A, CHR ''-'', CHR ''-'', CHR ''-'', CHR 0x0A, CHR 0x0A]"

definition FullMarkdown :: "DocumentOCRResult \<Rightarrow> string" where
  "FullMarkdown r =
     strings_Join (foldl (\<lambda>parts page. parts @ [Markdown page]) [] (Pages r)) page_separator"

text \<open>
  The specification's wording of the same result, for comparison: the texts in sequence
  order with the separator between each two neighbours.
\<close>

fun joined_by :: "string \<Rightarrow> string list \<Rightarrow> string" where
  "joined_by sep [] = []"
| "joined_by sep [t] = t"
| "joined_by sep (t # u # ts) = t @ sep @ joined_by sep (u # ts)"

text \<open>\<^verbatim>\<open>getFileType\<close>: the lower-cased extension selects the type; the default is an image.\<close>

definition getFileType :: "string \<Rightarrow> FileType" where
  "getFileType filePath =
     (let ext = strings_ToLower (filepath_Ext filePath) in
      if ext = ''.pdf'' then FileTypePDF
      else if ext \<in> set [''.png'', ''.jpg'', ''.jpeg'', ''.bmp'', ''.tiff'', ''.tif'', ''.webp'']
        then FileTypeImage
      else FileTypeImage)"

text \<open>The image extensions the specification lists, without their dot.\<close>

definition image_extensions :: "string list" where
  "image_extensions = [''png'', ''jpg'', ''jpeg'', ''bmp'', ''tiff'', ''tif'', ''webp'']"


section \<open>The client (package ocr)\<close>

definition LayoutParsingEndpoint :: string where
  "LayoutParsingEndpoint = ''/layout-parsing''"

text \<open>Durations are nanoseconds; the client's own timeout is 120 seconds.\<close>

record Client =
  config :: Config
  httpClient_Timeout :: int

record OCROptions =
  UseDocOrientationClassify :: bool
  UseDocUnwarping :: bool
  UseChartRecognition :: bool
  Timeout :: int

definition Client_IsConfigured :: "Client \<Rightarrow> bool" where
  "Client_IsConfigured c = IsConfigured (config c)"

definition Client_ServerURL :: "Client \<Rightarrow> string" where
  "Client_ServerURL c = trim_right_slash (ServerURL (PaddleOCR (config c)))"

text \<open>
  The request payload (a map with these five keys in the source), the HTTP request and
  response, and the response envelope. In the envelope a missing or null \<^verbatim>\<open>images\<close> is
  Go's nil map, here \<open>None\<close>. The body of a response is the outcome of \<^verbatim>\<open>io.ReadAll\<close>.
\<close>

record payload =
  payload_file :: string
  payload_fileType :: int
  payload_useDocOrientationClassify :: bool
  payload_useDocUnwarping :: bool
  payload_useChartRecognition :: bool

record request =
  Method :: string
  URL :: string
  Header :: "(string \<times> string) list"
  request_body :: string

record response =
  StatusCode :: int
  Status :: string
  Body :: "error + string"

record layout =
  markdown_text :: string
  markdown_images :: "(string \<rightharpoonup> string) option"

record envelope =
  logId :: string
  errorCode :: int
  errorMsg :: string
  layoutParsingResults :: "layout list"

text \<open>
  The libraries and the network are parameters: base64 encoding, JSON marshalling and
  unmarshalling, the validation \<^verbatim>\<open>http.NewRequest\<close> makes of method and URL, and
  \<^verbatim>\<open>client.Do\<close> under a timeout.
\<close>

record world =
  base64_EncodeToString :: "string \<Rightarrow> string"
  json_Marshal :: "payload \<Rightarrow> error + string"
  http_NewRequest_error :: "string \<Rightarrow> string \<Rightarrow> error option"
  http_Do :: "int \<Rightarrow> request \<Rightarrow> error + response"
  json_Unmarshal :: "string \<Rightarrow> error + envelope"

text \<open>The calls that leave the program, in the order they are made.\<close>

datatype event =
    Stat_call string
  | ReadFile_call string
  | HTTP_call int request

definition encodeFile :: "world \<Rightarrow> os_state \<Rightarrow> string \<Rightarrow> error + string" where
  "encodeFile w os filePath =
     (case os_ReadFile os filePath of
        Inl err \<Rightarrow> Inl err
      | Inr data \<Rightarrow> Inr (base64_EncodeToString w data))"

text \<open>A failed result: no pages, the message, no log id.\<close>

definition failed :: "string \<Rightarrow> DocumentOCRResult" where
  "failed msg = \<lparr>Success = False, Pages = [], ErrorMessage = msg, LogID = []\<rparr>"

definition not_configured_message :: string where
  "not_configured_message =
     ''PaddleOCR is not configured. Run '' @ [CHR 0x27] @ ''paddleocr-cli configure''
       @ [CHR 0x27] @ '' first.''"

definition ocr_payload :: "string \<Rightarrow> string \<Rightarrow> OCROptions \<Rightarrow> payload" where
  "ocr_payload fileData filePath opts =
     \<lparr>payload_file = fileData,
      payload_fileType = FileType_int (getFileType filePath),
      payload_useDocOrientationClassify = UseDocOrientationClassify opts,
      payload_useDocUnwarping = UseDocUnwarping opts,
      payload_useChartRecognition = UseChartRecognition opts\<rparr>"

definition ocr_request :: "Client \<Rightarrow> string \<Rightarrow> request" where
  "ocr_request c payloadBytes =
     \<lparr>Method = ''POST'',
      URL = Client_ServerURL c @ LayoutParsingEndpoint,
      Header = [(''Authorization'', ''token '' @ AccessToken (PaddleOCR (config c))),
                (''Content-Type'', ''application/json'')],
      request_body = payloadBytes\<rparr>"

definition ocr_timeout :: "Client \<Rightarrow> OCROptions \<Rightarrow> int" where
  "ocr_timeout c opts = (if Timeout opts > 0 then Timeout opts else httpClient_Timeout c)"


text \<open>
  \<^verbatim>\<open>OCRFile\<close>, first part (up to \<^verbatim>\<open>client.Do\<close>): the checks, the payload and the request.
  The result is either the failed result that ends the function or the response
  received, together with the calls made.
\<close>

definition OCRFile_send ::
  "world \<Rightarrow> os_state \<Rightarrow> Client \<Rightarrow> string \<Rightarrow> OCROptions
     \<Rightarrow> (DocumentOCRResult + response) \<times> event list" where
  "OCRFile_send w os c filePath opts =
     (if (case os_Stat os filePath of Inl err \<Rightarrow> IsNotExist err | Inr info \<Rightarrow> False)
      then (Inl (failed (''File not found: '' @ filePath)), [Stat_call filePath])
      else if \<not> Client_IsConfigured c
      then (Inl (failed not_configured_message), [Stat_call filePath])
      else case encodeFile w os filePath of
        Inl err \<Rightarrow>
          (Inl (failed (''Failed to read file: '' @ Error_text err)),
           [Stat_call filePath, ReadFile_call filePath])
      | Inr fileData \<Rightarrow>
          (case json_Marshal w (ocr_payload fileData filePath opts) of
             Inl err \<Rightarrow>
               (Inl (failed (''Failed to marshal payload: '' @ Error_text err)),
                [Stat_call filePath, ReadFile_call filePath])
           | Inr payloadBytes \<Rightarrow>
               (case http_NewRequest_error w ''POST''
                       (Client_ServerURL c @ LayoutParsingEndpoint) of
                  Some err \<Rightarrow>
                    (Inl (failed (''Failed to create request: '' @ Error_text err)),
                     [Stat_call filePath, ReadFile_call filePath])
                | None \<Rightarrow>
                    (case http_Do w (ocr_timeout c opts) (ocr_request c payloadBytes) of
                       Inl err \<Rightarrow>
                         (Inl (failed (''Request failed: '' @ Error_text err)),
                          [Stat_call filePath, ReadFile_call filePath,
                           HTTP_call (ocr_timeout c opts) (ocr_request c payloadBytes)])
                     | Inr resp \<Rightarrow>
                         (Inr resp,
                          [Stat_call filePath, ReadFile_call filePath,
                           HTTP_call (ocr_timeout c opts) (ocr_request c payloadBytes)])))))"

text \<open>
  The loop that builds the pages: \<open>i\<close> is the index of the next entry, \<open>pages\<close> the
  pages appended so far; a nil image map is replaced by an empty one.
\<close>

fun build_pages :: "nat \<Rightarrow> layout list \<Rightarrow> OCRResult list \<Rightarrow> OCRResult list" where
  "build_pages i [] pages = pages"
| "build_pages i (layoutResult # rest) pages =
     build_pages (Suc i) rest
       (pages @ [\<lparr>PageIndex = i,
                  Markdown = markdown_text layoutResult,
                  Images = (case markdown_images layoutResult of
                              None \<Rightarrow> Map.empty
                            | Some images \<Rightarrow> images)\<rparr>])"

text \<open>\<^verbatim>\<open>OCRFile\<close>, second part: reading the body, the status, the envelope, the pages.\<close>

definition OCRFile_receive :: "world \<Rightarrow> response \<Rightarrow> DocumentOCRResult" where
  "OCRFile_receive w resp =
     (case Body resp of
        Inl err \<Rightarrow> failed (''Failed to read response: '' @ Error_text err)
      | Inr body \<Rightarrow>
          if StatusCode resp \<noteq> 200
          then failed (''HTTP '' @ itoa (StatusCode resp) @ '': '' @ Status resp
                        @ [CHR 0x0A] @ body)
          else case json_Unmarshal w body of
            Inl err \<Rightarrow> failed (''Invalid JSON response: '' @ Error_text err)
          | Inr response \<Rightarrow>
              if errorCode response \<noteq> 0
              then \<lparr>Success = False, Pages = [],
                    ErrorMessage = ''API error ('' @ itoa (errorCode response) @ ''): ''
                                     @ errorMsg response,
                    LogID = logId response\<rparr>
              else \<lparr>Success = True,
                    Pages = build_pages 0 (layoutParsingResults response) [],
                    ErrorMessage = [],
                    LogID = logId response\<rparr>)"

definition OCRFile ::
  "world \<Rightarrow> os_state \<Rightarrow> Client \<Rightarrow> string \<Rightarrow> OCROptions \<Rightarrow> DocumentOCRResult \<times> event list" where
  "OCRFile w os c filePath opts =
     (case OCRFile_send w os c filePath opts of
        (Inl result, calls) \<Rightarrow> (result, calls)
      | (Inr resp, calls) \<Rightarrow> (OCRFile_receive w resp, calls))"


section \<open>A sample environment\<close>

text \<open>
  A small file system, a client and a server, on which the theorems below are
  instantiated: a project \<^verbatim>\<open>/work/proj\<close> marked by \<^verbatim>\<open>.claude\<close>, the working directory
  \<^verbatim>\<open>/work/proj/sub\<close>, the home directory \<^verbatim>\<open>/home/u\<close>, and a configuration file at each of the
  three places.
\<close>

definition sample_nodes :: "(string \<times> node) list" where
  "sample_nodes =
     [(''/'', Directory),
      (''/work'', Directory),
      (''/work/proj'', Directory),
      (''/work/proj/.claude'', Directory),
      (''/work/proj/.paddleocr_cli.yaml'', RegularFile ''project''),
      (''/work/proj/sub'', Directory),
      (''/work/proj/sub/.paddleocr_cli.yaml'', RegularFile ''local''),
      (''/work/proj/sub/scan.pdf'', RegularFile ''%PDF-1.7''),
      (''/work/proj/sub/pages'', Directory),
      (''/home'', Directory),
      (''/home/u'', Directory),
      (''/home/u/.config'', Directory),
      (''/home/u/.config/paddleocr_cli'', Directory),
      (''/home/u/.config/paddleocr_cli/config.yaml'', RegularFile ''user'')]"

definition sample_os :: os_state where
  "sample_os =
     \<lparr>Getwd_result = Inr ''/work/proj/sub'',
      UserHomeDir_result = Inr ''/home/u'',
      nodes = map_of sample_nodes,
      working_directory = ''/work/proj/sub''\<rparr>"

text \<open>The same machine with the listed files removed.\<close>

definition without_files :: "string list \<Rightarrow> os_state \<Rightarrow> os_state" where
  "without_files names os = os\<lparr>nodes := (\<lambda>name. if name \<in> set names then None else nodes os name)\<rparr>"

definition sample_config :: Config where
  "sample_config =
     \<lparr>PaddleOCR = \<lparr>ServerURL = ''https://ocr.example.com/'', AccessToken = ''s3cr3t''\<rparr>\<rparr>"

definition sample_client :: Client where
  "sample_client = \<lparr>config = sample_config, httpClient_Timeout = 120000000000\<rparr>"

definition sample_opts :: OCROptions where
  "sample_opts =
     \<lparr>UseDocOrientationClassify = False, UseDocUnwarping = False,
      UseChartRecognition = False, Timeout = 120000000000\<rparr>"

text \<open>
  A server that answers every request with the given response, and a JSON decoder that
  knows one body: an envelope with error code 0 and one page with the text \<^verbatim>\<open>hi\<close>.
\<close>

definition sample_body :: string where
  "sample_body = ''{errorCode: 0, result: {layoutParsingResults: [{markdown: {text: hi, images: {}}}]}}''"

definition sample_envelope :: envelope where
  "sample_envelope =
     \<lparr>logId = [], errorCode = 0, errorMsg = [],
      layoutParsingResults = [\<lparr>markdown_text = ''hi'', markdown_images = Some Map.empty\<rparr>]\<rparr>"

definition sample_world :: "response \<Rightarrow> world" where
  "sample_world resp =
     \<lparr>base64_EncodeToString = (\<lambda>data. ''JVBERi0xLjc=''),
      json_Marshal = (\<lambda>p. Inr (''{file: '' @ payload_file p @ ''}'')),
      http_NewRequest_error = (\<lambda>method url. None),
      http_Do = (\<lambda>timeout req. Inr resp),
      json_Unmarshal = (\<lambda>body. if body = sample_body then Inr sample_envelope
                                  else Inl (ErrorString ''unexpected end of JSON input''))\<rparr>"

definition response_ok :: response where
  "response_ok = \<lparr>StatusCode = 200, Status = ''200 OK'', Body = Inr sample_body\<rparr>"

definition response_500 :: response where
  "response_500 =
     \<lparr>StatusCode = 500, Status = ''500 Internal Server Error'', Body = Inr ''boom''\<rparr>"


section \<open>Measures\<close>

text \<open>
  Two sizes used to show that the loops end: the length of a list of path elements when
  each is followed by one separator, and the size of a path that shrinks from a
  directory to its parent.
\<close>

definition weight :: "string list \<Rightarrow> nat" where
  "weight xs = sum_list (map (\<lambda>x. Suc (length x)) xs)"

definition path_measure :: "string \<Rightarrow> nat" where
  "path_measure p = (if p = ''.'' \<or> p = ''/'' then 0 else Suc (length p))"


section \<open>Lemmas on strings\<close>

lemma foldl_join_Cons:
  "foldl (\<lambda>b s. b @ sep @ s) (a @ sep @ e) es = a @ sep @ foldl (\<lambda>b s. b @ sep @ s) e es"
  by (induction es arbitrary: e) simp_all

lemma strings_Join_joined_by: "strings_Join elems sep = joined_by sep elems"
proof (induction sep elems rule: joined_by.induct)
  case (1 sep)
  show ?case by (simp add: strings_Join_def)
next
  case (2 sep t)
  show ?case by (simp add: strings_Join_def)
next
  case (3 sep t u ts)
  have "strings_Join (t # u # ts) sep = foldl (\<lambda>b s. b @ sep @ s) (t @ sep @ u) ts"
    by (simp add: strings_Join_def)
  also have "\<dots> = t @ sep @ foldl (\<lambda>b s. b @ sep @ s) u ts"
    by (rule foldl_join_Cons)
  also have "\<dots> = t @ sep @ strings_Join (u # ts) sep"
    by (simp add: strings_Join_def)
  finally show ?case using 3 by simp
qed

lemma collect_parts: "foldl (\<lambda>parts page. parts @ [f page]) acc ps = acc @ map f ps"
  by (induction ps arbitrary: acc) simp_all

lemma ext_scan_no_dot:
  "\<forall>c \<in> set e. c \<noteq> CHR ''.'' \<and> \<not> IsPathSeparator c \<Longrightarrow>
   ext_scan (e @ CHR ''.'' # earlier) seen = CHR ''.'' # rev e @ seen"
  by (induction e arbitrary: seen) (simp_all add: IsPathSeparator_def)

lemma filepath_Ext_append:
  assumes "\<forall>c \<in> set e. c \<noteq> CHR ''.'' \<and> \<not> IsPathSeparator c"
  shows "filepath_Ext (stem @ CHR ''.'' # e) = CHR ''.'' # e"
proof -
  have "\<forall>c \<in> set (rev e). c \<noteq> CHR ''.'' \<and> \<not> IsPathSeparator c"
    using assms by simp
  from ext_scan_no_dot [OF this, of "rev stem" "[]"]
  show ?thesis by (simp add: filepath_Ext_def)
qed

lemma lower_byte_fix:
  "lower_byte (CHR ''.'') = CHR ''.''" "lower_byte (CHR ''/'') = CHR ''/''"
  by (simp_all add: lower_byte_def)

lemma lower_no_dot:
  assumes "CHR ''.'' \<notin> set (strings_ToLower e)" "CHR ''/'' \<notin> set (strings_ToLower e)"
  shows "\<forall>c \<in> set e. c \<noteq> CHR ''.'' \<and> \<not> IsPathSeparator c"
proof
  fix c assume c: "c \<in> set e"
  then have "lower_byte c \<in> set (strings_ToLower e)" by (simp add: strings_ToLower_def)
  then have "lower_byte c \<noteq> CHR ''.''" "lower_byte c \<noteq> CHR ''/''" using assms by auto
  then show "c \<noteq> CHR ''.'' \<and> \<not> IsPathSeparator c"
    using lower_byte_fix by (auto simp: IsPathSeparator_def)
qed

lemma ext_of_known:
  assumes "strings_ToLower e \<in> set (''pdf'' # image_extensions)"
  shows "filepath_Ext (stem @ CHR ''.'' # e) = CHR ''.'' # e"
proof -
  have "CHR ''.'' \<notin> set (strings_ToLower e)" "CHR ''/'' \<notin> set (strings_ToLower e)"
    using assms by (auto simp: image_extensions_def)
  from lower_no_dot [OF this] show ?thesis
    by (rule filepath_Ext_append)
qed

lemma lower_Cons_dot: "strings_ToLower (CHR ''.'' # e) = CHR ''.'' # strings_ToLower e"
  by (simp add: strings_ToLower_def lower_byte_fix)


section \<open>Lemmas on paths, and the termination of the loops\<close>

lemma weight_simps [simp]: "weight [] = 0" "weight (x # xs) = Suc (length x) + weight xs"
  "weight (xs @ ys) = weight xs + weight ys"
  by (simp_all add: weight_def)

lemma length_joined_by: "length (joined_by ''/'' xs) = weight xs - 1"
  by (induction "''/''" xs rule: joined_by.induct) simp_all

lemma weight_butlast: "weight (butlast xs) \<le> weight xs"
  by (induction xs) simp_all

lemma weight_clean_step: "weight (clean_step rooted out el) \<le> weight out + Suc (length el)"
  using weight_butlast [of out] by (auto simp: clean_step_def)

lemma weight_clean_fold:
  "weight (foldl (clean_step rooted) out els) \<le> weight out + weight els"
proof (induction els arbitrary: out)
  case Nil
  show ?case by simp
next
  case (Cons el els)
  have "weight (foldl (clean_step rooted) (clean_step rooted out el) els)
          \<le> weight (clean_step rooted out el) + weight els"
    by (rule Cons.IH)
  with weight_clean_step [of rooted out el] show ?case by simp
qed

lemma path_elements_not_Nil: "path_elements s \<noteq> []"
  by (induction s) (simp_all split: list.splits)

lemma weight_path_elements: "weight (path_elements s) = Suc (length s)"
proof (induction s)
  case Nil
  show ?case by simp
next
  case (Cons c cs)
  then show ?case using path_elements_not_Nil [of cs]
    by (cases "path_elements cs") auto
qed

lemma path_elements_rooted:
  "IsPathSeparator c \<Longrightarrow> foldl (clean_step r) [] (path_elements (c # cs)) = foldl (clean_step r) [] (path_elements cs)"
  by (simp add: clean_step_def)

lemma length_Clean: "length (filepath_Clean s) \<le> max 1 (length s)"
proof (cases s)
  case Nil
  then show ?thesis by (simp add: filepath_Clean_def)
next
  case (Cons c cs)
  show ?thesis
  proof (cases "IsPathSeparator c")
    case True
    let ?out = "foldl (clean_step True) [] (path_elements cs)"
    have "weight ?out \<le> Suc (length cs)"
      using weight_clean_fold [of True "[]" "path_elements cs"] by (simp add: weight_path_elements)
    then have "length (''/'' @ strings_Join ?out ''/'') \<le> length s"
      using Cons by (simp add: strings_Join_joined_by length_joined_by)
    then show ?thesis using Cons True
      by (simp add: filepath_Clean_def Let_def path_elements_rooted del: path_elements.simps)
  next
    case False
    let ?out = "foldl (clean_step False) [] (path_elements s)"
    have "weight ?out \<le> Suc (length s)"
      using weight_clean_fold [of False "[]" "path_elements s"] by (simp add: weight_path_elements)
    then have "length (strings_Join ?out ''/'') \<le> length s"
      by (simp add: strings_Join_joined_by length_joined_by)
    then show ?thesis using Cons False
      by (simp add: filepath_Clean_def Let_def del: path_elements.simps)
  qed
qed

lemma path_elements_snoc: "path_elements (r @ ''/'') = path_elements r @ [[]]"
proof (induction r)
  case Nil
  show ?case by (simp add: IsPathSeparator_def)
next
  case (Cons c cs)
  then show ?case using path_elements_not_Nil [of cs]
    by (cases "path_elements cs") auto
qed

lemma Clean_snoc: "r \<noteq> [] \<Longrightarrow> filepath_Clean (r @ ''/'') = filepath_Clean r"
  by (simp add: filepath_Clean_def path_elements_snoc clean_step_def del: path_elements.simps)

lemma Clean_root: "filepath_Clean ''/'' = ''/''"
  by (simp add: filepath_Clean_def IsPathSeparator_def clean_step_def strings_Join_def)

lemma dir_prefix_cases: "dir_prefix p = [] \<or> (\<exists>r. dir_prefix p = r @ ''/'')"
proof (cases "dropWhile (\<lambda>c. \<not> IsPathSeparator c) (rev p)")
  case Nil
  then show ?thesis by (simp add: dir_prefix_def)
next
  case (Cons c cs)
  then have "c = CHR ''/''" by (simp add: dropWhile_eq_Cons_conv IsPathSeparator_def)
  then show ?thesis using Cons by (simp add: dir_prefix_def)
qed

lemma length_dir_prefix: "length (dir_prefix p) \<le> length p"
  using length_dropWhile_le [of "\<lambda>c. \<not> IsPathSeparator c" "rev p"] by (simp add: dir_prefix_def)

lemma dir_prefix_dot: "dir_prefix ''.'' = []" "dir_prefix ''/'' = ''/''"
  by (simp_all add: dir_prefix_def IsPathSeparator_def)

lemma Dir_decreases:
  assumes "filepath_Dir p \<noteq> p"
  shows "path_measure (filepath_Dir p) < path_measure p"
proof -
  consider "dir_prefix p = []" | "dir_prefix p = ''/''" | r where "dir_prefix p = r @ ''/''" "r \<noteq> []"
    using dir_prefix_cases [of p] by (metis append_Nil)
  then show ?thesis
  proof cases
    case 1
    then have "filepath_Dir p = ''.''" by (simp add: filepath_Dir_def filepath_Clean_def)
    moreover have "p \<noteq> ''/''" using 1 dir_prefix_dot by auto
    ultimately show ?thesis using assms by (simp add: path_measure_def)
  next
    case 2
    then have "filepath_Dir p = ''/''" by (simp add: filepath_Dir_def Clean_root)
    moreover have "p \<noteq> ''.''" using 2 dir_prefix_dot by auto
    ultimately show ?thesis using assms by (simp add: path_measure_def)
  next
    case 3
    have "filepath_Dir p = filepath_Clean r"
      using 3 by (simp add: filepath_Dir_def Clean_snoc)
    moreover have "length (filepath_Clean r) \<le> length r"
      using length_Clean [of r] 3(2) by (cases r) simp_all
    moreover have "length r < length p" using length_dir_prefix [of p] 3(1) by simp
    moreover have "p \<noteq> ''.''" "p \<noteq> ''/''" using 3 dir_prefix_dot by auto
    ultimately show ?thesis by (simp add: path_measure_def)
  qed
qed

termination project_root_loop
  by (relation "measure (\<lambda>(os, home, current). path_measure current)") (simp_all add: Dir_decreases)

lemma length_mkdir_parent: "path \<noteq> [] \<Longrightarrow> length (mkdir_parent path) < length path"
proof -
  assume "path \<noteq> []"
  then obtain c cs where r: "rev path = c # cs" by (cases "rev path") auto
  have a: "length (dropWhile P xs) \<le> length xs" for P and xs :: string
    by (rule length_dropWhile_le)
  have "length (dropWhile (\<lambda>c. \<not> IsPathSeparator c) (dropWhile IsPathSeparator (c # cs))) \<le> length cs"
  proof (cases "IsPathSeparator c")
    case True
    then show ?thesis using a [of "\<lambda>c. \<not> IsPathSeparator c" "dropWhile IsPathSeparator cs"] a [of IsPathSeparator cs]
      by simp
  next
    case False
    then show ?thesis using a [of "\<lambda>c. \<not> IsPathSeparator c" cs] by simp
  qed
  then have "length (mkdir_parent path) \<le> length cs" by (simp add: mkdir_parent_def r)
  moreover have "length path = Suc (length cs)" using r by (metis length_Cons length_rev)
  ultimately show ?thesis by simp
qed

termination os_MkdirAll
proof (relation "measure (\<lambda>(os, path). length path)")
  show "wf (measure (\<lambda>(os, path). length path))" by simp
next
  fix os :: os_state and path :: string and err0 :: error
  assume "mkdir_parent path \<noteq> []"
  then have "path \<noteq> []" by (auto simp: mkdir_parent_def)
  then show "((os, mkdir_parent path), os, path) \<in> measure (\<lambda>(os, path). length path)"
    by (simp add: length_mkdir_parent)
qed

declare project_root_loop.simps [simp del]

declare os_MkdirAll.simps [simp del]

section \<open>The result model: file types and the combined markdown\<close>

lemma getFileType_cases:
  "getFileType p =
     (if strings_ToLower (filepath_Ext p) = ''.pdf'' then FileTypePDF else FileTypeImage)"
  by (simp add: getFileType_def Let_def)

text \<open>
  C6. The type of a file depends on the lower-cased extension only: it is PDF exactly
  when that is \<^verbatim>\<open>.pdf\<close>. So a path ending in a dot and one of the image extensions, in
  any case, is an image (and that ending is its extension); a path ending in a dot and
  \<^verbatim>\<open>pdf\<close>, in any case, is a PDF; every other extension, and a missing one, gives an
  image.
\<close>

theorem getFileType_by_extension:
  "getFileType p =
     (if strings_ToLower (filepath_Ext p) = ''.pdf'' then FileTypePDF else FileTypeImage)
   \<and> (strings_ToLower (filepath_Ext p) = strings_ToLower (filepath_Ext q)
        \<longrightarrow> getFileType p = getFileType q)
   \<and> (strings_ToLower e \<in> set image_extensions \<longrightarrow>
        filepath_Ext (stem @ ''.'' @ e) = ''.'' @ e
        \<and> getFileType (stem @ ''.'' @ e) = FileTypeImage)
   \<and> (strings_ToLower e = ''pdf'' \<longrightarrow>
        filepath_Ext (stem @ ''.'' @ e) = ''.'' @ e
        \<and> getFileType (stem @ ''.'' @ e) = FileTypePDF)
   \<and> (strings_ToLower (filepath_Ext p) \<noteq> ''.pdf'' \<longrightarrow> getFileType p = FileTypeImage)
   \<and> (filepath_Ext p = [] \<longrightarrow> getFileType p = FileTypeImage)"
proof (intro conjI impI)
  show "getFileType p =
     (if strings_ToLower (filepath_Ext p) = ''.pdf'' then FileTypePDF else FileTypeImage)"
    by (rule getFileType_cases)
next
  assume img: "strings_ToLower e \<in> set image_extensions"
  then have "strings_ToLower e \<in> set (''pdf'' # image_extensions)" by simp
  from ext_of_known [OF this, of stem]
  have ext: "filepath_Ext (stem @ CHR ''.'' # e) = CHR ''.'' # e" .
  then show "filepath_Ext (stem @ ''.'' @ e) = ''.'' @ e" by simp
  have "strings_ToLower e \<noteq> ''pdf''" using img by (auto simp: image_extensions_def)
  then show "getFileType (stem @ ''.'' @ e) = FileTypeImage"
    by (simp add: getFileType_cases ext lower_Cons_dot)
next
  assume pdf: "strings_ToLower e = ''pdf''"
  then have "strings_ToLower e \<in> set (''pdf'' # image_extensions)" by simp
  from ext_of_known [OF this, of stem]
  have ext: "filepath_Ext (stem @ CHR ''.'' # e) = CHR ''.'' # e" .
  then show "filepath_Ext (stem @ ''.'' @ e) = ''.'' @ e" by simp
  show "getFileType (stem @ ''.'' @ e) = FileTypePDF"
    by (simp add: getFileType_cases ext lower_Cons_dot pdf)
next
  assume "filepath_Ext p = []"
  then show "getFileType p = FileTypeImage"
    by (simp add: getFileType_cases strings_ToLower_def)
qed (simp_all add: getFileType_cases)

theorem getFileType_by_extension_witness:
  "strings_ToLower ''JPEG'' \<in> set image_extensions
   \<and> getFileType (''/scans/photo'' @ ''.'' @ ''JPEG'') = FileTypeImage
   \<and> strings_ToLower ''Pdf'' = ''pdf''
   \<and> getFileType (''/scans/report'' @ ''.'' @ ''Pdf'') = FileTypePDF
   \<and> filepath_Ext ''/scans.d/README'' = []
   \<and> getFileType ''/scans.d/README'' = FileTypeImage"
proof -
  have h1: "strings_ToLower ''JPEG'' \<in> set image_extensions" by code_simp
  have h2: "strings_ToLower ''Pdf'' = ''pdf''" by code_simp
  have h3: "filepath_Ext ''/scans.d/README'' = []" by code_simp
  from getFileType_by_extension [of "''/scans.d/README''" "''/scans.d/README''" "''JPEG''" "''/scans/photo''"]
    getFileType_by_extension [of "''/scans.d/README''" "''/scans.d/README''" "''Pdf''" "''/scans/report''"]
  show ?thesis using h1 h2 h3 by blast
qed

text \<open>
  C7. The combined markdown is the pages' texts in their order, with the separator (two
  line feeds, three dashes, two line feeds) between neighbours: nothing for no page,
  and for two pages the first text, the separator, the second text.
\<close>

theorem FullMarkdown_joined:
  "FullMarkdown r = joined_by page_separator (map Markdown (Pages r))
   \<and> page_separator = [CHR 0x0A, CHR 0x0A] @ ''---'' @ [CHR 0x0A, CHR 0x0A]
   \<and> FullMarkdown (r\<lparr>Pages := []\<rparr>) = []
   \<and> FullMarkdown (r\<lparr>Pages := [a, b]\<rparr>) = Markdown a @ page_separator @ Markdown b"
proof -
  have "FullMarkdown r' = joined_by page_separator (map Markdown (Pages r'))" for r'
    by (simp add: FullMarkdown_def collect_parts strings_Join_joined_by)
  then show ?thesis by (simp add: page_separator_def)
qed


section \<open>The operating system: lemmas\<close>

lemma walk_errors: "walk os cur els = Inl e \<Longrightarrow> e = ENOENT \<or> e = ENOTDIR"
  by (induction els arbitrary: cur) (auto split: option.splits node.splits if_splits)

lemma resolve_errors: "resolve os name = Inl e \<Longrightarrow> e = ENOENT \<or> e = ENOTDIR"
  by (auto simp: resolve_def namei_def dest: walk_errors split: sum.splits option.splits if_splits)

lemma Stat_present: "lookup os name = Some n \<Longrightarrow> os_Stat os name = Inr n"
  by (simp add: os_Stat_def lookup_def split: sum.splits)

lemma Stat_absent: "lookup os name = None \<Longrightarrow> isl (os_Stat os name)"
  by (simp add: os_Stat_def lookup_def split: sum.splits)

lemma Stat_error_cases:
  "os_Stat os name = Inl err \<Longrightarrow>
   err = PathError ''stat'' name ENOENT \<or> err = PathError ''stat'' name ENOTDIR"
  by (auto simp: os_Stat_def dest: resolve_errors split: sum.splits)

lemma ReadFile_error_cases:
  "os_ReadFile os name = Inl err \<Longrightarrow>
   err = PathError ''open'' name ENOENT \<or> err = PathError ''open'' name ENOTDIR
   \<or> err = PathError ''read'' name EISDIR"
  by (auto simp: os_ReadFile_def dest: resolve_errors split: sum.splits node.splits)

lemma ReadFile_regular:
  "lookup os name = Some (RegularFile contents) \<Longrightarrow> os_ReadFile os name = Inr contents"
  by (simp add: os_ReadFile_def lookup_def split: sum.splits)

lemma ReadFile_directory:
  "lookup os name = Some Directory \<Longrightarrow> os_ReadFile os name = Inl (PathError ''read'' name EISDIR)"
  by (simp add: os_ReadFile_def lookup_def split: sum.splits)

lemma Stat_IsDir:
  "(case os_Stat os name of Inr info \<Rightarrow> IsDir info | Inl err \<Rightarrow> False)
     \<longleftrightarrow> lookup os name = Some Directory"
proof (cases "resolve os name")
  case (Inl e)
  then show ?thesis by (simp add: os_Stat_def lookup_def)
next
  case (Inr n)
  then show ?thesis by (cases n) (simp_all add: os_Stat_def lookup_def)
qed

text \<open>A file that was written does not disturb the walk that led to it.\<close>

lemma walk_after_write:
  "walk os cur els = Inr entry \<Longrightarrow> nodes os entry \<noteq> Some Directory \<Longrightarrow>
   walk (os\<lparr>nodes := (nodes os)(entry \<mapsto> n)\<rparr>) cur els = Inr entry"
proof (induction els arbitrary: cur)
  case Nil
  then show ?case by simp
next
  case (Cons el els)
  from Cons.prems(1) have dir: "nodes os cur = Some Directory"
    by (auto split: option.splits node.splits)
  with Cons.prems(2) have "cur \<noteq> entry" by auto
  with dir have dir': "nodes (os\<lparr>nodes := (nodes os)(entry \<mapsto> n)\<rparr>) cur = Some Directory"
    by simp
  show ?case
  proof (cases "el = [] \<or> el = ''.''")
    case True
    with Cons.prems(1) dir have "walk os cur els = Inr entry" by simp
    from Cons.IH [OF this Cons.prems(2)] True dir' show ?thesis by simp
  next
    case False
    with Cons.prems(1) dir have "walk os (entry_name cur el) els = Inr entry" by simp
    from Cons.IH [OF this Cons.prems(2)] False dir' show ?thesis by simp
  qed
qed

lemma WriteFile_then_ReadFile:
  assumes "os_WriteFile os name data = (os', None)"
  shows "os_ReadFile os' name = Inr data"
proof -
  from assms obtain entry where n: "namei os name = Inr entry"
    and d: "nodes os entry \<noteq> Some Directory"
    and os': "os' = os\<lparr>nodes := (nodes os)(entry \<mapsto> RegularFile data)\<rparr>"
    by (auto simp: os_WriteFile_def split: sum.splits option.splits node.splits)
  from n have ne: "name \<noteq> []"
    and w: "walk os (walk_start os name) (path_elements name) = Inr entry"
    by (auto simp: namei_def split: if_splits)
  have "walk_start os' name = walk_start os name" by (simp add: walk_start_def os')
  with walk_after_write [OF w d, of "RegularFile data"]
  have "namei os' name = Inr entry" using ne by (simp add: namei_def os')
  then show ?thesis by (simp add: os_ReadFile_def resolve_def os')
qed

text \<open>
  On the sample machine: a file, a directory, a name that is missing, and a name below
  a regular file.
\<close>

lemma sample_lookup_simps:
  "lookup sample_os ''/work/proj/sub/scan.pdf'' = Some (RegularFile ''%PDF-1.7'')"
  "lookup sample_os ''/work/proj/sub/pages'' = Some Directory"
  "lookup sample_os ''/work/proj/sub/lost.png'' = None"
  by code_simp+

lemma sample_Stat_simps:
  "os_Stat sample_os ''/work/proj/sub/lost.png''
     = Inl (PathError ''stat'' ''/work/proj/sub/lost.png'' ENOENT)"
  "os_Stat sample_os ''/work/proj/sub/scan.pdf/x''
     = Inl (PathError ''stat'' ''/work/proj/sub/scan.pdf/x'' ENOTDIR)"
  "os_Stat sample_os ''/work/proj/sub/pages'' = Inr Directory"
  "os_Stat sample_os ''/etc/paddleocr.yaml''
     = Inl (PathError ''stat'' ''/etc/paddleocr.yaml'' ENOENT)"
  by code_simp+

lemma sample_ReadFile_simps:
  "os_ReadFile sample_os ''/work/proj/sub/scan.pdf/x''
     = Inl (PathError ''open'' ''/work/proj/sub/scan.pdf/x'' ENOTDIR)"
  "os_ReadFile sample_os ''/work/proj/sub/pages''
     = Inl (PathError ''read'' ''/work/proj/sub/pages'' EISDIR)"
  "os_ReadFile sample_os ''/etc/paddleocr.yaml''
     = Inl (PathError ''open'' ''/etc/paddleocr.yaml'' ENOENT)"
  by code_simp+


section \<open>The client: lemmas\<close>

declare digits.simps [simp del]

lemma build_pages_acc:
  "build_pages i ls acc =
     acc @ map (\<lambda>(k, l). \<lparr>PageIndex = k, Markdown = markdown_text l,
                            Images = (case markdown_images l of None \<Rightarrow> Map.empty | Some m \<Rightarrow> m)\<rparr>)
              (enumerate i ls)"
  by (induction ls arbitrary: i acc) simp_all

lemma send_failure:
  "fst (OCRFile_send w os c filePath opts) = Inl r \<Longrightarrow>
     \<not> Success r \<and> Pages r = [] \<and> ErrorMessage r \<noteq> [] \<and> LogID r = []"
  by (auto simp: OCRFile_send_def failed_def not_configured_message_def
           split: if_splits sum.splits option.splits)

lemma receive_invariant:
  "(\<not> Success (OCRFile_receive w resp) \<longrightarrow>
       Pages (OCRFile_receive w resp) = [] \<and> ErrorMessage (OCRFile_receive w resp) \<noteq> [])
   \<and> (Success (OCRFile_receive w resp) \<longrightarrow> ErrorMessage (OCRFile_receive w resp) = [])"
  by (simp add: OCRFile_receive_def failed_def split: sum.splits)

lemma OCRFile_cases:
  "(\<exists>r. fst (OCRFile_send w os c filePath opts) = Inl r \<and> fst (OCRFile w os c filePath opts) = r)
   \<or> (\<exists>resp. fst (OCRFile_send w os c filePath opts) = Inr resp
        \<and> fst (OCRFile w os c filePath opts) = OCRFile_receive w resp)"
  by (cases "OCRFile_send w os c filePath opts"; cases "fst (OCRFile_send w os c filePath opts)")
     (simp_all add: OCRFile_def)

lemma OCRFile_received:
  "fst (OCRFile_send w os c filePath opts) = Inr resp \<Longrightarrow>
   fst (OCRFile w os c filePath opts) = OCRFile_receive w resp"
  using OCRFile_cases [of w os c filePath opts] by auto

lemma itoa_500: "itoa 500 = ''500''"
  by code_simp

lemma sample_send:
  "fst (OCRFile_send (sample_world resp) sample_os sample_client ''/work/proj/sub/scan.pdf'' sample_opts) = Inr resp"
  by (simp add: OCRFile_send_def Stat_present ReadFile_regular sample_lookup_simps encodeFile_def
        sample_world_def sample_client_def Client_IsConfigured_def IsConfigured_def sample_config_def)


section \<open>The client: results of \<^verbatim>\<open>OCRFile\<close>\<close>

text \<open>
  C2. Whatever the file system, the client, the libraries and the server do, the result
  of \<^verbatim>\<open>OCRFile\<close> that is not a success has no pages and a non-empty error message, and
  the result that is a success has an empty error message.
\<close>

theorem OCRFile_result_invariant:
  "(\<not> Success (fst (OCRFile w os c filePath opts)) \<longrightarrow>
       Pages (fst (OCRFile w os c filePath opts)) = []
       \<and> ErrorMessage (fst (OCRFile w os c filePath opts)) \<noteq> [])
   \<and> (Success (fst (OCRFile w os c filePath opts)) \<longrightarrow>
       ErrorMessage (fst (OCRFile w os c filePath opts)) = [])"
  using OCRFile_cases [of w os c filePath opts] send_failure [of w os c filePath opts]
    receive_invariant
  by metis

theorem OCRFile_result_invariant_witness:
  "\<not> Success (fst (OCRFile (sample_world response_500) sample_os sample_client ''/work/proj/sub/scan.pdf'' sample_opts))
   \<and> Pages (fst (OCRFile (sample_world response_500) sample_os sample_client ''/work/proj/sub/scan.pdf'' sample_opts)) = []
   \<and> ErrorMessage (fst (OCRFile (sample_world response_500) sample_os sample_client ''/work/proj/sub/scan.pdf'' sample_opts)) \<noteq> []
   \<and> Success (fst (OCRFile (sample_world response_ok) sample_os sample_client ''/work/proj/sub/scan.pdf'' sample_opts))
   \<and> ErrorMessage (fst (OCRFile (sample_world response_ok) sample_os sample_client ''/work/proj/sub/scan.pdf'' sample_opts)) = []"
proof -
  have a: "\<not> Success (fst (OCRFile (sample_world response_500) sample_os sample_client ''/work/proj/sub/scan.pdf'' sample_opts))"
    unfolding OCRFile_received [OF sample_send]
    by (simp add: OCRFile_receive_def response_500_def failed_def)
  have b: "Success (fst (OCRFile (sample_world response_ok) sample_os sample_client ''/work/proj/sub/scan.pdf'' sample_opts))"
    unfolding OCRFile_received [OF sample_send]
    by (simp add: OCRFile_receive_def response_ok_def sample_world_def sample_envelope_def)
  from OCRFile_result_invariant [of "sample_world response_500" sample_os sample_client "''/work/proj/sub/scan.pdf''" sample_opts]
    OCRFile_result_invariant [of "sample_world response_ok" sample_os sample_client "''/work/proj/sub/scan.pdf''" sample_opts]
  show ?thesis using a b by blast
qed

text \<open>
  C3. The checks come in the order existence, configuration, reading, and the first one
  that fails ends the call. When \<^verbatim>\<open>os.Stat\<close> fails with a not-exist error the result is the
  failed result \<^verbatim>\<open>File not found\<close> after that one call, whatever the configuration and
  the contents. When it does not (the file is found, or \<^verbatim>\<open>os.Stat\<close> fails for another
  reason) and the client is not configured, the result is the failed result
  \<^verbatim>\<open>not configured\<close>, still after that one call and before any read. When the first two
  checks pass and the file cannot be read, the result is the failed result
  \<^verbatim>\<open>Failed to read file\<close> with the error of the read, after the calls to \<^verbatim>\<open>os.Stat\<close> and
  \<^verbatim>\<open>os.ReadFile\<close>. Each result has no pages and a non-empty message, and in no case is
  there an HTTP call.
\<close>

theorem OCRFile_precondition_order:
  "(os_Stat os filePath = Inl err \<and> IsNotExist err \<longrightarrow>
      OCRFile w os c filePath opts =
        (\<lparr>Success = False, Pages = [], ErrorMessage = ''File not found: '' @ filePath, LogID = []\<rparr>,
         [Stat_call filePath]))
   \<and> ((case os_Stat os filePath of Inl e \<Rightarrow> \<not> IsNotExist e | Inr info \<Rightarrow> True)
       \<and> \<not> Client_IsConfigured c \<longrightarrow>
      OCRFile w os c filePath opts =
        (\<lparr>Success = False, Pages = [], ErrorMessage = not_configured_message, LogID = []\<rparr>,
         [Stat_call filePath]))
   \<and> ((case os_Stat os filePath of Inl e \<Rightarrow> \<not> IsNotExist e | Inr info \<Rightarrow> True)
       \<and> Client_IsConfigured c \<and> os_ReadFile os filePath = Inl rerr \<longrightarrow>
      OCRFile w os c filePath opts =
        (\<lparr>Success = False, Pages = [],
          ErrorMessage = ''Failed to read file: '' @ Error_text rerr, LogID = []\<rparr>,
         [Stat_call filePath, ReadFile_call filePath]))
   \<and> not_configured_message \<noteq> []"
proof (intro conjI impI)
  assume "os_Stat os filePath = Inl err \<and> IsNotExist err"
  then show "OCRFile w os c filePath opts =
        (\<lparr>Success = False, Pages = [], ErrorMessage = ''File not found: '' @ filePath, LogID = []\<rparr>,
         [Stat_call filePath])"
    by (simp add: OCRFile_def OCRFile_send_def failed_def)
next
  assume a: "(case os_Stat os filePath of Inl e \<Rightarrow> \<not> IsNotExist e | Inr info \<Rightarrow> True)
       \<and> \<not> Client_IsConfigured c"
  then have "\<not> (case os_Stat os filePath of Inl e \<Rightarrow> IsNotExist e | Inr info \<Rightarrow> False)"
    by (simp split: sum.splits)
  with a show "OCRFile w os c filePath opts =
        (\<lparr>Success = False, Pages = [], ErrorMessage = not_configured_message, LogID = []\<rparr>,
         [Stat_call filePath])"
    by (simp add: OCRFile_def OCRFile_send_def failed_def)
next
  assume a: "(case os_Stat os filePath of Inl e \<Rightarrow> \<not> IsNotExist e | Inr info \<Rightarrow> True)
       \<and> Client_IsConfigured c \<and> os_ReadFile os filePath = Inl rerr"
  then have "\<not> (case os_Stat os filePath of Inl e \<Rightarrow> IsNotExist e | Inr info \<Rightarrow> False)"
    by (simp split: sum.splits)
  with a show "OCRFile w os c filePath opts =
        (\<lparr>Success = False, Pages = [],
          ErrorMessage = ''Failed to read file: '' @ Error_text rerr, LogID = []\<rparr>,
         [Stat_call filePath, ReadFile_call filePath])"
    by (simp add: OCRFile_def OCRFile_send_def failed_def encodeFile_def)
next
  show "not_configured_message \<noteq> []" by (simp add: not_configured_message_def)
qed

text \<open>
  On the sample machine: a missing file with a client that is not configured; a name
  below the regular file \<^verbatim>\<open>scan.pdf\<close>, for which \<^verbatim>\<open>os.Stat\<close> fails with \<^verbatim>\<open>ENOTDIR\<close>, with a
  client that is not configured and with one that is; and a directory, which is found
  and cannot be read.
\<close>

theorem OCRFile_precondition_order_witness:
  "os_Stat sample_os ''/work/proj/sub/lost.png''
     = Inl (PathError ''stat'' ''/work/proj/sub/lost.png'' ENOENT)
   \<and> IsNotExist (PathError ''stat'' ''/work/proj/sub/lost.png'' ENOENT)
   \<and> OCRFile (sample_world response_ok) sample_os (sample_client\<lparr>config := New\<rparr>)
        ''/work/proj/sub/lost.png'' sample_opts =
        (\<lparr>Success = False, Pages = [],
          ErrorMessage = ''File not found: /work/proj/sub/lost.png'', LogID = []\<rparr>,
         [Stat_call ''/work/proj/sub/lost.png''])
   \<and> os_Stat sample_os ''/work/proj/sub/scan.pdf/x''
     = Inl (PathError ''stat'' ''/work/proj/sub/scan.pdf/x'' ENOTDIR)
   \<and> \<not> IsNotExist (PathError ''stat'' ''/work/proj/sub/scan.pdf/x'' ENOTDIR)
   \<and> \<not> Client_IsConfigured (sample_client\<lparr>config := New\<rparr>)
   \<and> OCRFile (sample_world response_ok) sample_os (sample_client\<lparr>config := New\<rparr>)
        ''/work/proj/sub/scan.pdf/x'' sample_opts =
        (\<lparr>Success = False, Pages = [], ErrorMessage = not_configured_message, LogID = []\<rparr>,
         [Stat_call ''/work/proj/sub/scan.pdf/x''])
   \<and> Client_IsConfigured sample_client
   \<and> os_ReadFile sample_os ''/work/proj/sub/scan.pdf/x''
        = Inl (PathError ''open'' ''/work/proj/sub/scan.pdf/x'' ENOTDIR)
   \<and> OCRFile (sample_world response_ok) sample_os sample_client
        ''/work/proj/sub/scan.pdf/x'' sample_opts =
        (\<lparr>Success = False, Pages = [],
          ErrorMessage = ''Failed to read file: open /work/proj/sub/scan.pdf/x: not a directory'',
          LogID = []\<rparr>,
         [Stat_call ''/work/proj/sub/scan.pdf/x'', ReadFile_call ''/work/proj/sub/scan.pdf/x''])
   \<and> os_Stat sample_os ''/work/proj/sub/pages'' = Inr Directory
   \<and> os_ReadFile sample_os ''/work/proj/sub/pages''
        = Inl (PathError ''read'' ''/work/proj/sub/pages'' EISDIR)
   \<and> OCRFile (sample_world response_ok) sample_os sample_client
        ''/work/proj/sub/pages'' sample_opts =
        (\<lparr>Success = False, Pages = [],
          ErrorMessage = ''Failed to read file: read /work/proj/sub/pages: is a directory'',
          LogID = []\<rparr>,
         [Stat_call ''/work/proj/sub/pages'', ReadFile_call ''/work/proj/sub/pages''])"
proof -
  note s = sample_Stat_simps
  note r = sample_ReadFile_simps
  have h3: "\<not> Client_IsConfigured (sample_client\<lparr>config := New\<rparr>)"
    by (simp add: Client_IsConfigured_def IsConfigured_def New_def)
  have h4: "Client_IsConfigured sample_client"
    by (simp add: Client_IsConfigured_def IsConfigured_def sample_client_def sample_config_def)
  from OCRFile_precondition_order [of sample_os "''/work/proj/sub/lost.png''"
      "PathError ''stat'' ''/work/proj/sub/lost.png'' ENOENT"
      "sample_world response_ok" "sample_client\<lparr>config := New\<rparr>" sample_opts]
    OCRFile_precondition_order [of sample_os "''/work/proj/sub/scan.pdf/x''" ErrNotExist
      "sample_world response_ok" "sample_client\<lparr>config := New\<rparr>" sample_opts]
    OCRFile_precondition_order [of sample_os "''/work/proj/sub/scan.pdf/x''" ErrNotExist
      "sample_world response_ok" sample_client sample_opts
      "PathError ''open'' ''/work/proj/sub/scan.pdf/x'' ENOTDIR"]
    OCRFile_precondition_order [of sample_os "''/work/proj/sub/pages''" ErrNotExist
      "sample_world response_ok" sample_client sample_opts
      "PathError ''read'' ''/work/proj/sub/pages'' EISDIR"]
  show ?thesis using s r h3 h4 by simp
qed

text \<open>
  C4. When the request was sent and the response has status 200, a body that could be
  read and an envelope that parses with error code 0, the result is a success with the
  envelope's log id, and its pages are the entries of \<^verbatim>\<open>layoutParsingResults\<close> in order:
  page \<open>i\<close> has index \<open>i\<close>, the entry's markdown text, and the entry's images, an
  empty map when they are missing.
\<close>

theorem OCRFile_success_pages:
  assumes "fst (OCRFile_send w os c filePath opts) = Inr resp"
    and "StatusCode resp = 200"
    and "Body resp = Inr body"
    and "json_Unmarshal w body = Inr e"
    and "errorCode e = 0"
  shows "Success (fst (OCRFile w os c filePath opts))
    \<and> LogID (fst (OCRFile w os c filePath opts)) = logId e
    \<and> ErrorMessage (fst (OCRFile w os c filePath opts)) = []
    \<and> length (Pages (fst (OCRFile w os c filePath opts))) = length (layoutParsingResults e)
    \<and> (\<forall>i < length (layoutParsingResults e).
          Pages (fst (OCRFile w os c filePath opts)) ! i =
            \<lparr>PageIndex = i,
             Markdown = markdown_text (layoutParsingResults e ! i),
             Images = (case markdown_images (layoutParsingResults e ! i) of
                         None \<Rightarrow> Map.empty
                       | Some images \<Rightarrow> images)\<rparr>)"
proof -
  have "fst (OCRFile w os c filePath opts) =
          \<lparr>Success = True, Pages = build_pages 0 (layoutParsingResults e) [],
           ErrorMessage = [], LogID = logId e\<rparr>"
    using assms by (simp add: OCRFile_received OCRFile_receive_def)
  then show ?thesis
    by (simp add: build_pages_acc nth_enumerate_eq)
qed

theorem OCRFile_success_pages_witness:
  "fst (OCRFile_send (sample_world response_ok) sample_os sample_client ''/work/proj/sub/scan.pdf'' sample_opts) = Inr response_ok
   \<and> StatusCode response_ok = 200
   \<and> Body response_ok = Inr sample_body
   \<and> json_Unmarshal (sample_world response_ok) sample_body = Inr sample_envelope
   \<and> errorCode sample_envelope = 0
   \<and> Success (fst (OCRFile (sample_world response_ok) sample_os sample_client ''/work/proj/sub/scan.pdf'' sample_opts))
   \<and> length (Pages (fst (OCRFile (sample_world response_ok) sample_os sample_client ''/work/proj/sub/scan.pdf'' sample_opts))) = 1
   \<and> Pages (fst (OCRFile (sample_world response_ok) sample_os sample_client ''/work/proj/sub/scan.pdf'' sample_opts)) ! 0
        = \<lparr>PageIndex = 0, Markdown = ''hi'', Images = Map.empty\<rparr>"
proof -
  have h2: "StatusCode response_ok = 200" by (simp add: response_ok_def)
  have h3: "Body response_ok = Inr sample_body" by (simp add: response_ok_def)
  have h4: "json_Unmarshal (sample_world response_ok) sample_body = Inr sample_envelope"
    by (simp add: sample_world_def)
  have h5: "errorCode sample_envelope = 0" by (simp add: sample_envelope_def)
  from OCRFile_success_pages [OF sample_send h2 h3 h4 h5]
  show ?thesis using sample_send [of response_ok] h2 h3 h4 h5 by (simp add: sample_envelope_def)
qed

text \<open>
  C5. When the request was sent and the response, whose body could be read, has a status
  other than 200, the result is failed, with no pages, and its message is \<^verbatim>\<open>HTTP\<close>, the
  status code in decimal, the status text and, on a new line, the body: code, status
  text and body each occur in it. For status 500 and body \<^verbatim>\<open>boom\<close> the message contains
  \<^verbatim>\<open>500\<close> and \<^verbatim>\<open>boom\<close>.
\<close>

theorem OCRFile_http_status:
  assumes "fst (OCRFile_send w os c filePath opts) = Inr resp"
    and "StatusCode resp \<noteq> 200"
    and "Body resp = Inr body"
  shows "fst (OCRFile w os c filePath opts) =
           \<lparr>Success = False, Pages = [],
            ErrorMessage = ''HTTP '' @ itoa (StatusCode resp) @ '': '' @ Status resp
                             @ [CHR 0x0A] @ body,
            LogID = []\<rparr>
    \<and> sublist (itoa (StatusCode resp)) (ErrorMessage (fst (OCRFile w os c filePath opts)))
    \<and> sublist (Status resp) (ErrorMessage (fst (OCRFile w os c filePath opts)))
    \<and> sublist body (ErrorMessage (fst (OCRFile w os c filePath opts)))
    \<and> (StatusCode resp = 500 \<and> body = ''boom'' \<longrightarrow>
          sublist ''500'' (ErrorMessage (fst (OCRFile w os c filePath opts)))
          \<and> sublist ''boom'' (ErrorMessage (fst (OCRFile w os c filePath opts))))"
proof -
  let ?msg = "''HTTP '' @ itoa (StatusCode resp) @ '': '' @ Status resp @ [CHR 0x0A] @ body"
  have r: "fst (OCRFile w os c filePath opts) =
           \<lparr>Success = False, Pages = [], ErrorMessage = ?msg, LogID = []\<rparr>"
    using assms by (simp add: OCRFile_received OCRFile_receive_def failed_def)
  have a: "sublist (itoa (StatusCode resp)) ?msg"
    by (rule sublist_appendI)
  have "sublist (Status resp) ((''HTTP '' @ itoa (StatusCode resp) @ '': '') @ Status resp @ ([CHR 0x0A] @ body))"
    by (rule sublist_appendI)
  then have b: "sublist (Status resp) ?msg" by simp
  have "sublist body ((''HTTP '' @ itoa (StatusCode resp) @ '': '' @ Status resp @ [CHR 0x0A]) @ body)"
    by (rule sublist_append_leftI)
  then have c: "sublist body ?msg" by simp
  have d: "StatusCode resp = 500 \<and> body = ''boom'' \<longrightarrow> sublist ''500'' ?msg \<and> sublist ''boom'' ?msg"
    using a c itoa_500 by auto
  show ?thesis unfolding r using a b c d by simp
qed

theorem OCRFile_http_status_witness:
  "fst (OCRFile_send (sample_world response_500) sample_os sample_client ''/work/proj/sub/scan.pdf'' sample_opts) = Inr response_500
   \<and> StatusCode response_500 \<noteq> 200
   \<and> Body response_500 = Inr ''boom''
   \<and> \<not> Success (fst (OCRFile (sample_world response_500) sample_os sample_client ''/work/proj/sub/scan.pdf'' sample_opts))
   \<and> sublist ''500'' (ErrorMessage (fst (OCRFile (sample_world response_500) sample_os sample_client ''/work/proj/sub/scan.pdf'' sample_opts)))
   \<and> sublist ''boom'' (ErrorMessage (fst (OCRFile (sample_world response_500) sample_os sample_client ''/work/proj/sub/scan.pdf'' sample_opts)))"
proof -
  have h2: "StatusCode response_500 \<noteq> 200" by (simp add: response_500_def)
  have h3: "Body response_500 = Inr ''boom''" by (simp add: response_500_def)
  have h4: "StatusCode response_500 = 500" by (simp add: response_500_def)
  note t = OCRFile_http_status [OF sample_send h2 h3]
  from t have a: "\<not> Success (fst (OCRFile (sample_world response_500) sample_os sample_client ''/work/proj/sub/scan.pdf'' sample_opts))"
    by simp
  from t h4 have b: "sublist ''500'' (ErrorMessage (fst (OCRFile (sample_world response_500) sample_os sample_client ''/work/proj/sub/scan.pdf'' sample_opts)))
     \<and> sublist ''boom'' (ErrorMessage (fst (OCRFile (sample_world response_500) sample_os sample_client ''/work/proj/sub/scan.pdf'' sample_opts)))"
    by blast
  show ?thesis using sample_send [of response_500] h2 h3 a b by blast
qed


section \<open>Configuration: lemmas\<close>

lemma project_root_loop_marked:
  "project_root_loop os home current \<noteq> [] \<Longrightarrow>
   lookup os (filepath_Join [project_root_loop os home current, ''.claude'']) = Some Directory"
proof (induction os home current rule: project_root_loop.induct)
  case (1 os home current)
  note eq = project_root_loop.simps [of os home current]
  show ?case
  proof (cases "lookup os (filepath_Join [current, ''.claude'']) = Some Directory")
    case True
    then have "project_root_loop os home current = current"
      by (subst eq) (simp add: Stat_IsDir)
    with True show ?thesis by simp
  next
    case False
    then have stat: "\<not> (case os_Stat os (filepath_Join [current, ''.claude'']) of
                          Inr info \<Rightarrow> IsDir info | Inl err \<Rightarrow> False)"
      by (simp add: Stat_IsDir)
    show ?thesis
    proof (cases "filepath_Dir current = current \<or> current = home")
      case True
      with stat have "project_root_loop os home current = []"
        by (subst eq) simp
      with "1.prems" show ?thesis by simp
    next
      case stop: False
      with stat have step: "project_root_loop os home current
          = project_root_loop os home (filepath_Dir current)"
        by (subst eq) simp
      with "1.prems" have "project_root_loop os home (filepath_Dir current) \<noteq> []" by simp
      from "1.IH" [OF stat stop this] show ?thesis by (simp add: step)
    qed
  qed
qed

lemma GetProjectRoot_marked:
  "GetProjectRoot os \<noteq> [] \<Longrightarrow>
   lookup os (filepath_Join [GetProjectRoot os, ''.claude'']) = Some Directory"
  by (auto simp: GetProjectRoot_def project_root_loop_marked split: sum.splits)

lemma Save_success:
  assumes "Save y os cfg configPath = (os', None)" "configPath \<noteq> []"
  shows "\<exists>os2 data. yaml_Marshal y cfg = Inr data \<and> os_WriteFile os2 configPath data = (os', None)"
  using assms
  by (auto simp: Save_def save_target_def split: prod.splits sum.splits option.splits)

text \<open>The codec gives back every valid pair.\<close>

lemma plain_round_trip:
  assumes "valid_pair cfg"
  shows "\<exists>data. yaml_Marshal plain_yaml cfg = Inr data
           \<and> yaml_Unmarshal plain_yaml data c0 = Inr cfg"
proof -
  let ?url = "ServerURL (PaddleOCR cfg)" and ?tok = "AccessToken (PaddleOCR cfg)"
  have u: "\<And>ch. ch \<in> set ?url \<Longrightarrow> ch \<noteq> CHR 0x0A" and t: "\<And>ch. ch \<in> set ?tok \<Longrightarrow> ch \<noteq> CHR 0x0A"
    using assms by (auto simp: valid_pair_def single_line_def)
  have d1: "dropWhile (\<lambda>ch. ch \<noteq> CHR 0x0A) (?url @ CHR 0x0A # rest) = CHR 0x0A # rest" for rest
    using u by (simp add: dropWhile_append2)
  have t1: "takeWhile (\<lambda>ch. ch \<noteq> CHR 0x0A) (?url @ CHR 0x0A # rest) = ?url" for rest
    using u by (simp add: takeWhile_append2)
  have d2: "dropWhile (\<lambda>ch. ch \<noteq> CHR 0x0A) (?tok @ [CHR 0x0A]) = [CHR 0x0A]"
    using t by (simp add: dropWhile_append2)
  have t2: "takeWhile (\<lambda>ch. ch \<noteq> CHR 0x0A) (?tok @ [CHR 0x0A]) = ?tok"
    using t by (simp add: takeWhile_append2)
  have "plain_Unmarshal
          (''paddleocr:'' @ [CHR 0x0A] @ ''    server_url: '' @ ?url
           @ [CHR 0x0A] @ ''    access_token: '' @ ?tok @ [CHR 0x0A]) c0
        = Inr \<lparr>PaddleOCR = \<lparr>ServerURL = ?url, AccessToken = ?tok\<rparr>\<rparr>"
    by (simp add: plain_Unmarshal_def d1 t1 d2 t2)
  then show ?thesis by (simp add: plain_yaml_def plain_Marshal_def)
qed

lemma Save_then_Load_codec:
  assumes "configPath \<noteq> []"
    and "snd (Save y os cfg configPath) = None"
    and "yaml_Marshal y cfg = Inr data"
    and "yaml_Unmarshal y data New = Inr cfg"
  shows "Load y (fst (Save y os cfg configPath)) configPath = Inr cfg"
proof -
  have "Save y os cfg configPath = (fst (Save y os cfg configPath), None)"
    using assms(2) by (metis prod.collapse)
  from Save_success [OF this assms(1)] obtain os2 data' where
    m: "yaml_Marshal y cfg = Inr data'"
    and w: "os_WriteFile os2 configPath data' = (fst (Save y os cfg configPath), None)"
    by blast
  from m assms(3) have "data' = data" by simp
  with w have "os_ReadFile (fst (Save y os cfg configPath)) configPath = Inr data"
    by (simp add: WriteFile_then_ReadFile)
  then show ?thesis using assms(1,4) by (simp add: Load_def)
qed


lemma first_found_Cons_present: "lookup os path \<noteq> None \<Longrightarrow> first_found os (path # paths) = path"
  by (auto simp: Stat_present)

lemma first_found_Cons_missing: "lookup os path = None \<Longrightarrow> first_found os (path # paths) = first_found os paths"
  using Stat_absent [of os path] by (cases "os_Stat os path") simp_all

lemma searchPaths_tiers:
  "searchPaths os =
     (case tier_cwd os of None \<Rightarrow> [] | Some p \<Rightarrow> [p])
     @ (case tier_project os of None \<Rightarrow> [] | Some p \<Rightarrow> [p])
     @ (case tier_user os of None \<Rightarrow> [] | Some p \<Rightarrow> [p])"
  by (simp add: searchPaths_def tier_cwd_def tier_project_def tier_user_def split: sum.splits)

lemma first_found_tier_missing:
  "\<not> present os tier \<Longrightarrow>
   first_found os ((case tier of None \<Rightarrow> [] | Some p \<Rightarrow> [p]) @ paths) = first_found os paths"
  by (cases tier) (simp_all add: present_def first_found_Cons_missing del: first_found.simps)

lemma first_found_tier_hit:
  "present os tier \<Longrightarrow>
   Some (first_found os ((case tier of None \<Rightarrow> [] | Some p \<Rightarrow> [p]) @ paths)) = tier"
  by (cases tier) (simp_all add: present_def first_found_Cons_present del: first_found.simps)

lemma sample_tiers:
  "tier_cwd sample_os = Some ''/work/proj/sub/.paddleocr_cli.yaml''"
  "tier_project sample_os = Some ''/work/proj/.paddleocr_cli.yaml''"
  "tier_user sample_os = Some ''/home/u/.config/paddleocr_cli/config.yaml''"
  by code_simp+


section \<open>Configuration: loading, searching and saving\<close>

text \<open>
  C1. \<^verbatim>\<open>Load\<close> with an explicit path whose read fails with a not-exist error (the file, or
  a directory on the way to it, is missing) returns a new, empty configuration and no
  error: the failure is not passed on. A read that fails for another reason (the path
  lies below a regular file, or is a directory) is returned as the error.
  On the sample machine \<^verbatim>\<open>/etc/paddleocr.yaml\<close> does not exist, and loading it gives the
  empty configuration, not an error.
\<close>

theorem Load_missing_path_default:
  "(configPath \<noteq> [] \<and> os_ReadFile os configPath = Inl err \<and> IsNotExist err \<longrightarrow>
      Load y os configPath = Inr New)
   \<and> (configPath \<noteq> [] \<and> os_ReadFile os configPath = Inl err \<and> \<not> IsNotExist err \<longrightarrow>
        Load y os configPath = Inl err)"
  by (simp add: Load_def)

theorem Load_missing_path_default_witness:
  "''/etc/paddleocr.yaml'' \<noteq> []
   \<and> os_ReadFile sample_os ''/etc/paddleocr.yaml''
        = Inl (PathError ''open'' ''/etc/paddleocr.yaml'' ENOENT)
   \<and> IsNotExist (PathError ''open'' ''/etc/paddleocr.yaml'' ENOENT)
   \<and> Load plain_yaml sample_os ''/etc/paddleocr.yaml'' = Inr New
   \<and> os_ReadFile sample_os ''/work/proj/sub/scan.pdf/x''
        = Inl (PathError ''open'' ''/work/proj/sub/scan.pdf/x'' ENOTDIR)
   \<and> \<not> IsNotExist (PathError ''open'' ''/work/proj/sub/scan.pdf/x'' ENOTDIR)
   \<and> Load plain_yaml sample_os ''/work/proj/sub/scan.pdf/x''
        = Inl (PathError ''open'' ''/work/proj/sub/scan.pdf/x'' ENOTDIR)
   \<and> os_ReadFile sample_os ''/work/proj/sub/pages''
        = Inl (PathError ''read'' ''/work/proj/sub/pages'' EISDIR)
   \<and> Load plain_yaml sample_os ''/work/proj/sub/pages''
        = Inl (PathError ''read'' ''/work/proj/sub/pages'' EISDIR)"
proof -
  note r = sample_ReadFile_simps
  from Load_missing_path_default [where configPath = "''/etc/paddleocr.yaml''" and os = sample_os
      and y = plain_yaml and err = "PathError ''open'' ''/etc/paddleocr.yaml'' ENOENT"]
    Load_missing_path_default [where configPath = "''/work/proj/sub/scan.pdf/x''"
      and os = sample_os and y = plain_yaml
      and err = "PathError ''open'' ''/work/proj/sub/scan.pdf/x'' ENOTDIR"]
    Load_missing_path_default [where configPath = "''/work/proj/sub/pages''" and os = sample_os
      and y = plain_yaml and err = "PathError ''read'' ''/work/proj/sub/pages'' EISDIR"]
  show ?thesis using r by simp
qed

theorem Load_missing_path_counterexample:
  "os_Stat sample_os ''/etc/paddleocr.yaml''
     = Inl (PathError ''stat'' ''/etc/paddleocr.yaml'' ENOENT)
   \<and> Load plain_yaml sample_os ''/etc/paddleocr.yaml'' = Inr New
   \<and> \<not> isl (Load plain_yaml sample_os ''/etc/paddleocr.yaml'')"
proof -
  have "Load plain_yaml sample_os ''/etc/paddleocr.yaml'' = Inr New"
    by (simp add: Load_def sample_ReadFile_simps)
  then show ?thesis by (simp add: sample_Stat_simps)
qed

text \<open>
  C8. \<^verbatim>\<open>FindConfig\<close> returns the file of the current directory whenever it is present,
  whatever else is; otherwise the file of the project root when that is present,
  whether or not the user file is; otherwise the user file when it is present; and the
  empty string when none of the three is present.
\<close>

theorem FindConfig_priority:
  "(present os (tier_cwd os) \<longrightarrow> Some (FindConfig os) = tier_cwd os)
   \<and> (\<not> present os (tier_cwd os) \<and> present os (tier_project os) \<longrightarrow>
        Some (FindConfig os) = tier_project os)
   \<and> (\<not> present os (tier_cwd os) \<and> \<not> present os (tier_project os) \<and> present os (tier_user os) \<longrightarrow>
        Some (FindConfig os) = tier_user os)
   \<and> (\<not> present os (tier_cwd os) \<and> \<not> present os (tier_project os) \<and> \<not> present os (tier_user os) \<longrightarrow>
        FindConfig os = [])"
proof (intro conjI impI)
  assume "present os (tier_cwd os)"
  then show "Some (FindConfig os) = tier_cwd os"
    unfolding FindConfig_def searchPaths_tiers by (rule first_found_tier_hit)
next
  assume "\<not> present os (tier_cwd os) \<and> present os (tier_project os)"
  then show "Some (FindConfig os) = tier_project os"
    unfolding FindConfig_def searchPaths_tiers
    by (simp add: first_found_tier_missing first_found_tier_hit)
next
  assume "\<not> present os (tier_cwd os) \<and> \<not> present os (tier_project os) \<and> present os (tier_user os)"
  then show "Some (FindConfig os) = tier_user os"
    unfolding FindConfig_def searchPaths_tiers
    using first_found_tier_hit [of os "tier_user os" "[]"]
    by (simp add: first_found_tier_missing)
next
  assume "\<not> present os (tier_cwd os) \<and> \<not> present os (tier_project os) \<and> \<not> present os (tier_user os)"
  then show "FindConfig os = []"
    unfolding FindConfig_def searchPaths_tiers
    using first_found_tier_missing [of os "tier_user os" "[]"]
    by (simp add: first_found_tier_missing)
qed

theorem FindConfig_priority_witness:
  "present sample_os (tier_cwd sample_os)
   \<and> present sample_os (tier_project sample_os)
   \<and> present sample_os (tier_user sample_os)
   \<and> FindConfig sample_os = ''/work/proj/sub/.paddleocr_cli.yaml''
   \<and> \<not> present (without_files [''/work/proj/sub/.paddleocr_cli.yaml''] sample_os)
         (tier_cwd (without_files [''/work/proj/sub/.paddleocr_cli.yaml''] sample_os))
   \<and> present (without_files [''/work/proj/sub/.paddleocr_cli.yaml''] sample_os)
         (tier_project (without_files [''/work/proj/sub/.paddleocr_cli.yaml''] sample_os))
   \<and> present (without_files [''/work/proj/sub/.paddleocr_cli.yaml''] sample_os)
         (tier_user (without_files [''/work/proj/sub/.paddleocr_cli.yaml''] sample_os))
   \<and> FindConfig (without_files [''/work/proj/sub/.paddleocr_cli.yaml''] sample_os)
        = ''/work/proj/.paddleocr_cli.yaml''"
proof -
  let ?os = "without_files [''/work/proj/sub/.paddleocr_cli.yaml''] sample_os"
  have a: "present sample_os (tier_cwd sample_os)" "present sample_os (tier_project sample_os)"
    "present sample_os (tier_user sample_os)"
    by code_simp+
  have b: "\<not> present ?os (tier_cwd ?os)" "present ?os (tier_project ?os)" "present ?os (tier_user ?os)"
    by code_simp+
  have c: "tier_project ?os = Some ''/work/proj/.paddleocr_cli.yaml''" by code_simp
  from FindConfig_priority [of sample_os] FindConfig_priority [of ?os]
  show ?thesis using a b c sample_tiers by simp
qed

text \<open>
  C9. Saving a configuration to an explicit path and loading that path gives the
  configuration back, for every valid pair of server URL and access token (each a single
  line) and every path at which \<^verbatim>\<open>Save\<close> succeeds.
\<close>

theorem Save_then_Load:
  assumes "valid_pair cfg"
    and "configPath \<noteq> []"
    and "snd (Save plain_yaml os cfg configPath) = None"
  shows "Load plain_yaml (fst (Save plain_yaml os cfg configPath)) configPath = Inr cfg"
proof -
  from plain_round_trip [OF assms(1)] obtain data where
    "yaml_Marshal plain_yaml cfg = Inr data" "yaml_Unmarshal plain_yaml data New = Inr cfg"
    by blast
  with assms(2,3) show ?thesis by (rule Save_then_Load_codec)
qed

theorem Save_then_Load_witness:
  "valid_pair sample_config
   \<and> ''/work/proj/new/dir/cfg.yaml'' \<noteq> []
   \<and> snd (Save plain_yaml sample_os sample_config ''/work/proj/new/dir/cfg.yaml'') = None
   \<and> Load plain_yaml (fst (Save plain_yaml sample_os sample_config ''/work/proj/new/dir/cfg.yaml''))
         ''/work/proj/new/dir/cfg.yaml'' = Inr sample_config"
proof -
  have h1: "valid_pair sample_config" by code_simp
  have h2: "''/work/proj/new/dir/cfg.yaml'' \<noteq> []" by simp
  have h3: "snd (Save plain_yaml sample_os sample_config ''/work/proj/new/dir/cfg.yaml'') = None"
    by code_simp
  from Save_then_Load [OF h1 h2 h3] h1 h2 h3 show ?thesis by blast
qed

text \<open>
  C10. Every scope other than \<^verbatim>\<open>local\<close> and \<^verbatim>\<open>project\<close> is treated as \<^verbatim>\<open>user\<close>: the result
  is the user configuration path when the home directory is known, and the error of
  \<^verbatim>\<open>os.UserHomeDir\<close> otherwise. The scope \<^verbatim>\<open>project\<close> fails, with \<^verbatim>\<open>os.ErrNotExist\<close>,
  exactly when there is no project root; the scope \<^verbatim>\<open>local\<close> fails only with the error
  of \<^verbatim>\<open>os.Getwd\<close>. So an error of \<^verbatim>\<open>GetSavePath\<close> is either the missing project root or
  the error of one of these two calls.
  Without a home directory the unknown scope \<^verbatim>\<open>team\<close> gives an error; and when
  \<^verbatim>\<open>os.Getwd\<close> fails because the working directory was removed, the scope \<^verbatim>\<open>local\<close>
  gives an error for which \<^verbatim>\<open>os.IsNotExist\<close> holds.
\<close>

theorem GetSavePath_scopes:
  "(scope \<noteq> ''local'' \<and> scope \<noteq> ''project'' \<longrightarrow>
      GetSavePath os scope = GetSavePath os ''user''
      \<and> (\<forall>home. UserHomeDir_result os = Inr home \<longrightarrow>
            GetSavePath os scope = Inr (filepath_Join [home, UserConfigDir, UserConfigFile]))
      \<and> (\<forall>err. UserHomeDir_result os = Inl err \<longrightarrow> GetSavePath os scope = Inl err))
   \<and> GetSavePath os ''project'' =
       (if GetProjectRoot os = [] then Inl ErrNotExist
        else Inr (filepath_Join [GetProjectRoot os, ConfigFilename]))
   \<and> GetSavePath os ''local'' =
       (case Getwd_result os of
          Inl err \<Rightarrow> Inl err
        | Inr cwd \<Rightarrow> Inr (filepath_Join [cwd, ConfigFilename]))
   \<and> (GetSavePath os scope = Inl e \<longrightarrow>
        (scope = ''project'' \<and> e = ErrNotExist \<and> GetProjectRoot os = [])
        \<or> (scope = ''local'' \<and> Getwd_result os = Inl e)
        \<or> (scope \<noteq> ''local'' \<and> scope \<noteq> ''project'' \<and> UserHomeDir_result os = Inl e))"
  by (auto simp: GetSavePath_def split: sum.splits if_splits)

theorem GetSavePath_scopes_witness:
  "''team'' \<noteq> ''local'' \<and> ''team'' \<noteq> ''project''
   \<and> UserHomeDir_result sample_os = Inr ''/home/u''
   \<and> GetSavePath sample_os ''team'' = GetSavePath sample_os ''user''
   \<and> GetSavePath sample_os ''team'' = Inr ''/home/u/.config/paddleocr_cli/config.yaml''
   \<and> GetProjectRoot (without_files [''/work/proj/.claude''] sample_os) = []
   \<and> GetSavePath (without_files [''/work/proj/.claude''] sample_os) ''project'' = Inl ErrNotExist"
proof -
  have a: "''team'' \<noteq> ''local'' \<and> ''team'' \<noteq> ''project''" by simp
  have b: "UserHomeDir_result sample_os = Inr ''/home/u''" by (simp add: sample_os_def)
  have c: "filepath_Join [''/home/u'', UserConfigDir, UserConfigFile]
             = ''/home/u/.config/paddleocr_cli/config.yaml''" by code_simp
  have d: "GetProjectRoot (without_files [''/work/proj/.claude''] sample_os) = []" by code_simp
  note t1 = GetSavePath_scopes [of "''team''" sample_os ErrNotExist]
  note t2 = GetSavePath_scopes [of "''team''" "without_files [''/work/proj/.claude''] sample_os"
      ErrNotExist]
  from t1 a have e: "GetSavePath sample_os ''team'' = GetSavePath sample_os ''user''" by blast
  from t1 a b have "GetSavePath sample_os ''team''
      = Inr (filepath_Join [''/home/u'', UserConfigDir, UserConfigFile])" by blast
  with c have f: "GetSavePath sample_os ''team'' = Inr ''/home/u/.config/paddleocr_cli/config.yaml''"
    by simp
  from t2 have "GetSavePath (without_files [''/work/proj/.claude''] sample_os) ''project'' =
       (if GetProjectRoot (without_files [''/work/proj/.claude''] sample_os) = [] then Inl ErrNotExist
        else Inr (filepath_Join [GetProjectRoot (without_files [''/work/proj/.claude''] sample_os),
                                 ConfigFilename]))"
    by blast
  with d have g: "GetSavePath (without_files [''/work/proj/.claude''] sample_os) ''project''
      = Inl ErrNotExist" by simp
  show ?thesis using a b d e f g by blast
qed

theorem GetSavePath_scopes_counterexample:
  "GetSavePath (sample_os\<lparr>UserHomeDir_result := Inl (ErrorString ''$HOME is not defined'')\<rparr>) ''team''
     = Inl (ErrorString ''$HOME is not defined'')
   \<and> GetSavePath (sample_os\<lparr>Getwd_result := Inl (SyscallError ''getwd'' ENOENT)\<rparr>) ''local''
     = Inl (SyscallError ''getwd'' ENOENT)
   \<and> IsNotExist (SyscallError ''getwd'' ENOENT)"
  by (simp add: GetSavePath_def)

end
